theory Spec2Isabelle
  imports Complex_Main
begin

section \<open>Beta estimation scripts: numeric primitives\<close>

text \<open>
  The scripts compute on numpy arrays of float64. The embedding computes on lists of
  \<^typ>\<open>real\<close>, in row order; a float64 number is a real number, and the non-numbers of
  float64 (NaN, the infinities) appear only where the scripts test for them, as \<open>None\<close> of
  an option.

  \<open>np.cov\<close> and \<open>np.var\<close> round, and the estimators compare their results with zero, so
  the two enter the estimators as a parameter \<open>N\<close>: \<open>cov01 N x y\<close> is the number
  \<open>np.cov(x, y)[0, 1]\<close> returns and \<open>variance N x\<close> the number \<open>np.var(x)\<close> returns. What
  an estimator does with these numbers holds for every \<open>N\<close>, the float64 results among them.
  \<open>exact_numpy\<close> computes the two by the formulas of numpy in exact arithmetic; it gives
  the values float64 approximates, and the same values where float64 does not round.
  Quotients of two such numbers are exact.
\<close>

type_synonym date = nat

type_synonym series = "(date \<times> real) list"
  \<comment> \<open>a pandas Series of closing prices or returns: index and value of every row\<close>

definition np_mean :: "real list \<Rightarrow> real" where
  "np_mean xs = sum_list xs / real (length xs)"

definition cross_dev :: "real list \<Rightarrow> real list \<Rightarrow> real" where
  \<comment> \<open>\<open>np.sum((x - mean(x)) * (y - mean(y)))\<close>, the elementwise product read to the shorter array\<close>
  "cross_dev xs ys = sum_list (map2 (\<lambda>a b. (a - np_mean xs) * (b - np_mean ys)) xs ys)"

definition np_cov :: "real list \<Rightarrow> real list \<Rightarrow> real" where
  \<comment> \<open>\<open>np.cov(x, y)[0, 1]\<close>: the default is the sample convention, ddof = 1. The callers
      modelled here pass arrays of one length with more than one observation.\<close>
  "np_cov xs ys = cross_dev xs ys / (real (length xs) - 1)"

definition np_var :: "real list \<Rightarrow> real" where
  \<comment> \<open>\<open>np.var(x)\<close>: the default is the population convention, ddof = 0\<close>
  "np_var xs = cross_dev xs xs / real (length xs)"

definition np_var_ddof1 :: "real list \<Rightarrow> real" where
  \<comment> \<open>\<open>np.var(x, ddof=1)\<close>: the sample convention\<close>
  "np_var_ddof1 xs = cross_dev xs xs / (real (length xs) - 1)"

record numpy =
  cov01 :: "real list \<Rightarrow> real list \<Rightarrow> real"
  variance :: "real list \<Rightarrow> real"

definition exact_numpy :: numpy where
  "exact_numpy = \<lparr> cov01 = np_cov, variance = np_var \<rparr>"

subsection \<open>The two methods of \<open>yahoo_beta_replication.py\<close> and \<open>explain_beta_methods.py\<close>\<close>

definition beta_a :: "real list \<Rightarrow> real list \<Rightarrow> real" where
  \<comment> \<open>\<open>get_yahoo_style_beta\<close>, method A: \<open>np.cov(stock_ret, market_ret)[0, 1] / np.var(market_ret, ddof=1)\<close>\<close>
  "beta_a stock_ret market_ret = np_cov stock_ret market_ret / np_var_ddof1 market_ret"

definition linregress_slope :: "real list \<Rightarrow> real list \<Rightarrow> real" where
  \<comment> \<open>the slope of \<open>scipy.stats.linregress(x, y)\<close>: \<open>ssxym / ssxm\<close>, both taken from
      \<open>np.cov(x, y, bias=1)\<close>\<close>
  "linregress_slope xs ys = (cross_dev xs ys / real (length xs)) / (cross_dev xs xs / real (length xs))"

definition beta_b :: "real list \<Rightarrow> real list \<Rightarrow> real" where
  \<comment> \<open>\<open>get_yahoo_style_beta\<close>, method B: \<open>stats.linregress(market_ret, stock_ret)\<close>, the slope\<close>
  "beta_b stock_ret market_ret = linregress_slope market_ret stock_ret"

definition beta_cov_manual :: "real list \<Rightarrow> real list \<Rightarrow> real" where
  \<comment> \<open>\<open>demonstrate_with_real_data\<close>: \<open>cov_manual / var_manual\<close>\<close>
  "beta_cov_manual stock_ret market_ret =
     (let cov_numerator = cross_dev stock_ret market_ret;
          cov_manual = cov_numerator / (real (length stock_ret) - 1);
          var_numerator = cross_dev market_ret market_ret;
          var_manual = var_numerator / (real (length market_ret) - 1)
      in cov_manual / var_manual)"

definition beta_cov_numpy :: "real list \<Rightarrow> real list \<Rightarrow> real" where
  \<comment> \<open>\<open>demonstrate_with_real_data\<close>: \<open>np.cov(...)[0, 1] / np.var(market_ret, ddof=1)\<close>\<close>
  "beta_cov_numpy stock_ret market_ret = np_cov stock_ret market_ret / np_var_ddof1 market_ret"

definition beta_reg_manual :: "real list \<Rightarrow> real list \<Rightarrow> real" where
  \<comment> \<open>\<open>demonstrate_with_real_data\<close>: the regression slope written out\<close>
  "beta_reg_manual stock_ret market_ret =
     cross_dev market_ret stock_ret / cross_dev market_ret market_ret"

section \<open>Tables and arrays\<close>

text \<open>
  A data frame enters the estimators through its \<open>close\<close> column only, so it is modelled as
  the series of that column. The provider returns rows in increasing date order, one row per
  date, with positive prices; \<open>price_series\<close> says so, and division by a price is the
  division of numbers for such series only (numpy gives an infinity or NaN for a zero price).
\<close>

definition index :: "(date \<times> 'a) list \<Rightarrow> date list" where
  "index s = map fst s"

definition values_of :: "(date \<times> 'a) list \<Rightarrow> 'a list" where
  \<comment> \<open>\<open>.values\<close>\<close>
  "values_of s = map snd s"

definition price_series :: "series \<Rightarrow> bool" where
  "price_series s \<longleftrightarrow> sorted_wrt (<) (index s) \<and> list_all (\<lambda>p. 0 < p) (values_of s)"

definition intersection :: "date list \<Rightarrow> date list \<Rightarrow> date list" where
  \<comment> \<open>\<open>a.intersection(b)\<close> of two indexes without duplicates: the labels of \<open>a\<close> found in
      \<open>b\<close>, in the order of \<open>a\<close>\<close>
  "intersection a b = filter (\<lambda>d. d \<in> set b) a"

fun loc :: "(date \<times> 'a) list \<Rightarrow> date list \<Rightarrow> (date \<times> 'a) list option" where
  \<comment> \<open>\<open>s.loc[labels]\<close>: the row of every label, in the order of the labels; a label that is
      not in the index raises KeyError (\<open>None\<close>)\<close>
  "loc s [] = Some []"
| "loc s (d # ds) =
     (case map_of s d of
        None \<Rightarrow> None
      | Some v \<Rightarrow> (case loc s ds of None \<Rightarrow> None | Some rows \<Rightarrow> Some ((d, v) # rows)))"

definition pct_change :: "series \<Rightarrow> (date \<times> real option) list" where
  \<comment> \<open>\<open>s.pct_change()\<close>: \<open>s / s.shift(1) - 1\<close>; the first row has no predecessor and is NaN
      (\<open>None\<close>)\<close>
  "pct_change s =
     (case s of
        [] \<Rightarrow> []
      | (d, p) # rest \<Rightarrow>
          (d, None) # map (\<lambda>((d0, prev), (d1, cur)). (d1, Some (cur / prev - 1))) (zip s rest))"

definition dropna :: "(date \<times> real option) list \<Rightarrow> series" where
  \<comment> \<open>\<open>.dropna()\<close>: the rows whose value is a number\<close>
  "dropna rows = concat (map (\<lambda>(d, v). case v of None \<Rightarrow> [] | Some x \<Rightarrow> [(d, x)]) rows)"

definition positive_mask :: "real list \<Rightarrow> bool list" where
  \<comment> \<open>\<open>market_ret > 0\<close>\<close>
  "positive_mask market_ret = map (\<lambda>x. 0 < x) market_ret"

definition negative_mask :: "real list \<Rightarrow> bool list" where
  \<comment> \<open>\<open>market_ret < 0\<close>\<close>
  "negative_mask market_ret = map (\<lambda>x. x < 0) market_ret"

definition np_sum :: "bool list \<Rightarrow> nat" where
  \<comment> \<open>\<open>np.sum(mask)\<close>: the number of true entries\<close>
  "np_sum msk = length (filter (\<lambda>b. b) msk)"

definition masked :: "'a list \<Rightarrow> bool list \<Rightarrow> 'a list" where
  \<comment> \<open>\<open>xs[mask]\<close>: the entries of \<open>xs\<close> at the true positions of a mask of the same length\<close>
  "masked xs msk = map fst (filter snd (zip xs msk))"

definition directional_beta ::
  "numpy \<Rightarrow> nat \<Rightarrow> real list \<Rightarrow> real list \<Rightarrow> bool list \<Rightarrow> real option" where
  \<comment> \<open>the block every estimator repeats for the positive and for the negative mask:
      \<open>if np.sum(mask) > threshold: ... if var_sub > 0: sub_beta = cov_sub / var_sub\<close>,
      the beta staying \<open>None\<close> otherwise\<close>
  "directional_beta N threshold stock_ret market_ret msk =
     (if threshold < np_sum msk then
        (let stock_sub = masked stock_ret msk;
             market_sub = masked market_ret msk;
             cov_sub = cov01 N stock_sub market_sub;
             var_sub = variance N market_sub
         in if 0 < var_sub then Some (cov_sub / var_sub) else None)
      else None)"

definition np_corrcoef :: "real list \<Rightarrow> real list \<Rightarrow> real option" where
  \<comment> \<open>\<open>np.corrcoef(x, y)[0, 1]\<close>: the covariance divided by both standard deviations and
      clipped to [-1, 1]; NaN (\<open>None\<close>) when a variance is zero\<close>
  "np_corrcoef xs ys =
     (if np_cov xs xs = 0 \<or> np_cov ys ys = 0 then None
      else Some (max (- 1) (min 1 (np_cov xs ys / sqrt (np_cov xs xs) / sqrt (np_cov ys ys)))))"

section \<open>\<open>beta_5year_comparison.py\<close>: \<open>calculate_beta_simple\<close>\<close>

record simple_result =
  beta :: real
  positive_beta :: "real option"
  negative_beta :: "real option"
  data_points :: nat
  positive_days :: nat
  negative_days :: nat

definition simple_aligned :: "series \<Rightarrow> series \<Rightarrow> (real list \<times> real list) option" where
  \<comment> \<open>the head of \<open>calculate_beta_simple\<close>, to \<open>market_ret = market_returns.values[:min_len]\<close>;
      \<open>None\<close> is the early \<open>return None\<close>. A KeyError of \<open>loc\<close> would print a line and
      return \<open>None\<close> through the \<open>except\<close> clause; it cannot occur, as the labels are common
      to both indexes (\<open>simple_aligned_None\<close>).\<close>
  "simple_aligned stock_data market_data =
     (let common_dates = intersection (index stock_data) (index market_data) in
      if length common_dates < 50 then None
      else
        (case (loc stock_data common_dates, loc market_data common_dates) of
           (Some stock_aligned, Some market_aligned) \<Rightarrow>
             (let stock_returns = dropna (pct_change stock_aligned);
                  market_returns = dropna (pct_change market_aligned);
                  min_len = min (length stock_returns) (length market_returns);
                  stock_ret = take min_len (values_of stock_returns);
                  market_ret = take min_len (values_of market_returns)
              in Some (stock_ret, market_ret))
         | _ \<Rightarrow> None))"

definition simple_estimate :: "numpy \<Rightarrow> real list \<Rightarrow> real list \<Rightarrow> simple_result option" where
  \<comment> \<open>the rest of \<open>calculate_beta_simple\<close>, from \<open>covariance = np.cov(...)\<close>. The entry
      \<open>'correlation'\<close> of the returned dict is \<open>simple_correlation\<close> below: a square root is
      not computable, and it stays out of the record so that the record is.\<close>
  "simple_estimate N stock_ret market_ret =
     (let covariance = cov01 N stock_ret market_ret;
          market_variance = variance N market_ret
      in if market_variance = 0 then None
         else Some \<lparr>
           beta = covariance / market_variance,
           positive_beta = directional_beta N 10 stock_ret market_ret (positive_mask market_ret),
           negative_beta = directional_beta N 10 stock_ret market_ret (negative_mask market_ret),
           data_points = length stock_ret,
           positive_days = np_sum (positive_mask market_ret),
           negative_days = np_sum (negative_mask market_ret) \<rparr>)"

definition simple_correlation :: "real list \<Rightarrow> real list \<Rightarrow> real option" where
  \<comment> \<open>\<open>correlation = np.corrcoef(stock_ret, market_ret)[0, 1]\<close>\<close>
  "simple_correlation stock_ret market_ret = np_corrcoef stock_ret market_ret"

definition calculate_beta_simple :: "numpy \<Rightarrow> series \<Rightarrow> series \<Rightarrow> simple_result option" where
  "calculate_beta_simple N stock_data market_data =
     (case simple_aligned stock_data market_data of
        None \<Rightarrow> None
      | Some (stock_ret, market_ret) \<Rightarrow> simple_estimate N stock_ret market_ret)"

section \<open>\<open>corrected_beta_analysis.py\<close>: \<open>calculate_beta_fixed\<close>\<close>

record fixed_result =
  traditional_beta :: real
  fixed_positive_beta :: "real option"
  fixed_negative_beta :: "real option"
  beta_ratio :: "real option"
  fixed_data_points :: nat
  fixed_positive_days :: nat
  fixed_negative_days :: nat

definition py_truthy :: "real option \<Rightarrow> bool" where
  \<comment> \<open>the truth value Python gives an operand of \<open>and\<close>: \<open>None\<close> and \<open>0.0\<close> are false\<close>
  "py_truthy v = (case v of None \<Rightarrow> False | Some x \<Rightarrow> x \<noteq> 0)"

definition fixed_aligned :: "series \<Rightarrow> series \<Rightarrow> (real list \<times> real list) option" where
  \<comment> \<open>\<open>calculate_beta_fixed\<close> from \<open>stock_returns = ...\<close> to \<open>market_aligned = ...\<close>: returns
      first, then the common index. \<open>None\<close> is the early \<open>return None\<close>; \<open>loc\<close> cannot fail
      on labels of the intersection (\<open>loc_intersection_left\<close>, \<open>loc_intersection_right\<close>).\<close>
  "fixed_aligned stock_close market_close =
     (let stock_returns = dropna (pct_change stock_close);
          market_returns = dropna (pct_change market_close);
          common_idx = intersection (index stock_returns) (index market_returns)
      in if length common_idx < 50 then None
         else
           (case (loc stock_returns common_idx, loc market_returns common_idx) of
              (Some stock_rows, Some market_rows) \<Rightarrow> Some (values_of stock_rows, values_of market_rows)
            | _ \<Rightarrow> None))"

definition fixed_estimate :: "numpy \<Rightarrow> real list \<Rightarrow> real list \<Rightarrow> fixed_result option" where
  \<comment> \<open>the rest of \<open>calculate_beta_fixed\<close>, from \<open>covariance = np.cov(...)\<close>\<close>
  "fixed_estimate N stock_aligned market_aligned =
     (let covariance = cov01 N stock_aligned market_aligned;
          market_variance = variance N market_aligned
      in if market_variance = 0 then None
         else
           (let pos = directional_beta N 20 stock_aligned market_aligned (positive_mask market_aligned);
                neg = directional_beta N 20 stock_aligned market_aligned (negative_mask market_aligned)
            in Some \<lparr>
                 traditional_beta = covariance / market_variance,
                 fixed_positive_beta = pos,
                 fixed_negative_beta = neg,
                 beta_ratio =
                   (if py_truthy pos \<and> py_truthy neg \<and> neg \<noteq> Some 0
                    then (case (pos, neg) of (Some p, Some n) \<Rightarrow> Some (p / n) | _ \<Rightarrow> None)
                    else None),
                 fixed_data_points = length stock_aligned,
                 fixed_positive_days = np_sum (positive_mask market_aligned),
                 fixed_negative_days = np_sum (negative_mask market_aligned) \<rparr>))"

definition calculate_beta_fixed ::
  "numpy \<Rightarrow> series option \<Rightarrow> series option \<Rightarrow> fixed_result option" where
  \<comment> \<open>an argument \<open>None\<close> is Python's \<open>None\<close>; otherwise the \<open>close\<close> column\<close>
  "calculate_beta_fixed N stock_data market_data =
     (case (stock_data, market_data) of
        (Some stock_close, Some market_close) \<Rightarrow>
          (case fixed_aligned stock_close market_close of
             None \<Rightarrow> None
           | Some (stock_aligned, market_aligned) \<Rightarrow> fixed_estimate N stock_aligned market_aligned)
      | _ \<Rightarrow> None)"

section \<open>\<open>compare_positive_beta_methods.py\<close>\<close>

definition calculate_positive_beta_original_method ::
  "numpy \<Rightarrow> real list \<Rightarrow> real list \<Rightarrow> real option \<times> nat" where
  "calculate_positive_beta_original_method N stock_returns market_returns =
     (let positive_days_count = np_sum (positive_mask market_returns)
      in (directional_beta N 20 stock_returns market_returns (positive_mask market_returns),
          positive_days_count))"

section \<open>\<open>monthly_beta_10year.py\<close>: \<open>calculate_beta_monthly\<close>\<close>





definition monthly_correlation :: "real list \<Rightarrow> real list \<Rightarrow> real option" where
  "monthly_correlation stock_ret market_ret = np_corrcoef stock_ret market_ret"

definition monthly_r_squared :: "real list \<Rightarrow> real list \<Rightarrow> real option" where
  \<comment> \<open>\<open>r_squared = correlation ** 2\<close>\<close>
  "monthly_r_squared stock_ret market_ret = map_option (\<lambda>c. c ^ 2) (monthly_correlation stock_ret market_ret)"



section \<open>\<open>analyze_nvidia_beta.py\<close> and \<open>final_test.py\<close>\<close>

definition period_sample :: "series \<Rightarrow> series \<Rightarrow> (real list \<times> real list) option" where
  \<comment> \<open>\<open>analyze_nvidia_beta_periods\<close>, the body of the loop to \<open>if len(nvda_clean) > 50\<close>: the
      two arrays the beta of a period is computed from, \<open>None\<close> when a test on the length
      fails. After \<open>dropna\<close> the NaN mask is true everywhere and removes nothing.\<close>
  "period_sample nvda_period spy_period =
     (if 50 < length nvda_period then
        (let nvda_ret = values_of (dropna (pct_change nvda_period));
             spy_ret = values_of (dropna (pct_change spy_period));
             min_len = min (length nvda_ret) (length spy_ret);
             nvda_clean = take min_len nvda_ret;
             spy_clean = take min_len spy_ret
         in if 50 < length nvda_clean then Some (nvda_clean, spy_clean) else None)
      else None)"

definition np_diff :: "real list \<Rightarrow> real list" where
  \<comment> \<open>\<open>np.diff(a)\<close>: \<open>a[1:] - a[:-1]\<close>\<close>
  "np_diff a = map2 (\<lambda>nxt prev. nxt - prev) (tl a) (butlast a)"

definition diff_returns :: "real list \<Rightarrow> real list" where
  \<comment> \<open>\<open>final_test.py\<close>: \<open>np.diff(prices) / prices[:-1]\<close>\<close>
  "diff_returns prices = map2 (\<lambda>d prev. d / prev) (np_diff prices) (butlast prices)"

section \<open>\<open>getBars.py\<close> and the loop of \<open>beta_5year_comparison.py\<close>\<close>

record frame =
  frame_index :: "date list"
  adj_close_column :: "real option list option"
  close_column :: "real option list option"

datatype download = Download_raises string | Downloaded frame

text \<open>
  The lines a turn of the loop can print, without the symbol they all name:
  \<open>Processing\<close> opens the turn; \<open>Error_fetching_data\<close> (with the text of the exception),
  \<open>No_data_found\<close>, \<open>No_close_price_column\<close>, \<open>All_close_prices_are_NaN\<close> and
  \<open>Successfully_fetched\<close> (with the number of rows) are the lines of \<open>getBars\<close>; the others
  are the lines of \<open>main\<close>, \<open>PLTR_analysis\<close> standing for the four lines that open the
  block for that symbol.
\<close>

datatype console_line =
  Processing string
  | Error_fetching_data string
  | No_data_found
  | No_close_price_column
  | All_close_prices_are_NaN
  | Successfully_fetched nat
  | Insufficient_5year_data
  | Beta_calculation_failed
  | Beta_5Y simple_result
  | PLTR_analysis simple_result
  | Bull_market_beta real
  | Bear_market_beta real

definition getBars :: "download \<Rightarrow> console_line list \<times> series option" where
  \<comment> \<open>The argument is what \<open>yf.download\<close> does for the symbol and dates: it raises (with the
      text of the exception), or it returns a frame (its rows and its two price columns, NaN
      as \<open>None\<close>). The result is the lines \<open>getBars\<close> prints and what it returns: the
      \<open>close\<close> column of its frame, or Python's \<open>None\<close>.\<close>
  "getBars response =
     (case response of
        Download_raises e \<Rightarrow> ([Error_fetching_data e], None)
      | Downloaded df \<Rightarrow>
          if frame_index df = [] then ([No_data_found], None)
          else
            (case (case adj_close_column df of Some c \<Rightarrow> Some c | None \<Rightarrow> close_column df) of
               None \<Rightarrow> ([No_close_price_column], None)
             | Some close \<Rightarrow>
                 (let rows = dropna (zip (frame_index df) close)
                  in if rows = [] then ([All_close_prices_are_NaN], None)
                     else ([Successfully_fetched (length rows)], Some rows))))"

definition process_symbol :: "numpy \<Rightarrow> string \<Rightarrow> download \<Rightarrow> series \<Rightarrow> console_line list" where
  \<comment> \<open>one turn of the loop of \<open>main\<close>: the lines printed for the symbol, those of \<open>getBars\<close>
      among them. \<open>calculate_beta_simple\<close> prints nothing on the paths it can take.\<close>
  "process_symbol N symbol response market_data =
     Processing symbol #
     (case getBars response of
        (fetched, None) \<Rightarrow> fetched @ [Insufficient_5year_data]
      | (fetched, Some stock_data) \<Rightarrow>
          if length stock_data < 50 then fetched @ [Insufficient_5year_data]
          else
            (case calculate_beta_simple N stock_data market_data of
               None \<Rightarrow> fetched @ [Beta_calculation_failed]
             | Some beta_result \<Rightarrow>
                 fetched @ [Beta_5Y beta_result] @
                 (if symbol = ''PLTR'' then
                    [PLTR_analysis beta_result] @
                    (case positive_beta beta_result of
                       Some b \<Rightarrow> if b \<noteq> 0 then [Bull_market_beta b] else []
                     | None \<Rightarrow> []) @
                    (case negative_beta beta_result of
                       Some b \<Rightarrow> if b \<noteq> 0 then [Bear_market_beta b] else []
                     | None \<Rightarrow> [])
                  else [])))"

section \<open>The directional subsets of the specification\<close>

text \<open>
  The specification splits the aligned observations, pairs of an asset return and a
  benchmark return, by the sign of the benchmark return. These are its three sets; the
  estimators are compared with them.
\<close>

definition positive_subset :: "(real \<times> real) list \<Rightarrow> (real \<times> real) list" where
  "positive_subset observations =
     filter (\<lambda>(asset_return, benchmark_return). 0 < benchmark_return) observations"

definition negative_subset :: "(real \<times> real) list \<Rightarrow> (real \<times> real) list" where
  "negative_subset observations =
     filter (\<lambda>(asset_return, benchmark_return). benchmark_return < 0) observations"

definition zero_return_set :: "(real \<times> real) list \<Rightarrow> (real \<times> real) list" where
  "zero_return_set observations =
     filter (\<lambda>(asset_return, benchmark_return). benchmark_return = 0) observations"

section \<open>Sample inputs\<close>

text \<open>
  Price series of 53 trading days, numbered 0 to 52, so that every estimator accepts them,
  and the daily returns they give. The market of \<open>wave_market\<close> goes up and down in turn
  by varying amounts; the stock of \<open>wave_stock\<close> stands still on every day that market
  goes up; \<open>flat_market\<close> never moves; \<open>flip_market\<close> doubles and halves in turn;
  \<open>calm_market\<close> moves on its first four days only.
\<close>

definition wave_market_prices :: "real list" where
  "wave_market_prices =
     [4, 5, 4, 6, 4, 5, 4, 6, 4, 5, 4, 6, 4, 5, 4, 6, 4, 5, 4, 6, 4, 5, 4, 6, 4, 5, 4, 6, 4, 5,
      4, 6, 4, 5, 4, 6, 4, 5, 4, 6, 4, 5, 4, 6, 4, 5, 4, 6, 4, 5, 4, 6, 4]"

definition wave_market :: series where
  "wave_market = zip [0..<53] wave_market_prices"

definition wave_market_ret :: "real list" where
  "wave_market_ret =
     [1 / 4, - (1 / 5), 1 / 2, - (1 / 3), 1 / 4, - (1 / 5), 1 / 2, - (1 / 3), 1 / 4, - (1 / 5),
      1 / 2, - (1 / 3), 1 / 4, - (1 / 5), 1 / 2, - (1 / 3), 1 / 4, - (1 / 5), 1 / 2, - (1 / 3),
      1 / 4, - (1 / 5), 1 / 2, - (1 / 3), 1 / 4, - (1 / 5), 1 / 2, - (1 / 3), 1 / 4, - (1 / 5),
      1 / 2, - (1 / 3), 1 / 4, - (1 / 5), 1 / 2, - (1 / 3), 1 / 4, - (1 / 5), 1 / 2, - (1 / 3),
      1 / 4, - (1 / 5), 1 / 2, - (1 / 3), 1 / 4, - (1 / 5), 1 / 2, - (1 / 3), 1 / 4, - (1 / 5),
      1 / 2, - (1 / 3)]"

definition wave_stock_prices :: "real list" where
  "wave_stock_prices =
     [8, 8, 4, 4, 8, 8, 4, 4, 8, 8, 4, 4, 8, 8, 4, 4, 8, 8, 4, 4, 8, 8, 4, 4, 8, 8, 4, 4, 8, 8,
      4, 4, 8, 8, 4, 4, 8, 8, 4, 4, 8, 8, 4, 4, 8, 8, 4, 4, 8, 8, 4, 4, 8]"

definition wave_stock :: series where
  "wave_stock = zip [0..<53] wave_stock_prices"

definition wave_stock_ret :: "real list" where
  "wave_stock_ret =
     [0, - (1 / 2), 0, 1, 0, - (1 / 2), 0, 1, 0, - (1 / 2), 0, 1, 0, - (1 / 2), 0, 1, 0,
      - (1 / 2), 0, 1, 0, - (1 / 2), 0, 1, 0, - (1 / 2), 0, 1, 0, - (1 / 2), 0, 1, 0,
      - (1 / 2), 0, 1, 0, - (1 / 2), 0, 1, 0, - (1 / 2), 0, 1, 0, - (1 / 2), 0, 1, 0,
      - (1 / 2), 0, 1]"

definition flat_market_prices :: "real list" where
  "flat_market_prices =
     [3, 3, 3, 3, 3, 3, 3, 3, 3, 3, 3, 3, 3, 3, 3, 3, 3, 3, 3, 3, 3, 3, 3, 3, 3, 3, 3, 3, 3, 3,
      3, 3, 3, 3, 3, 3, 3, 3, 3, 3, 3, 3, 3, 3, 3, 3, 3, 3, 3, 3, 3, 3, 3]"

definition flat_market :: series where
  "flat_market = zip [0..<53] flat_market_prices"

definition flat_market_ret :: "real list" where
  "flat_market_ret =
     [0, 0, 0, 0, 0, 0, 0, 0, 0, 0, 0, 0, 0, 0, 0, 0, 0, 0, 0, 0, 0, 0, 0, 0, 0, 0, 0, 0, 0, 0,
      0, 0, 0, 0, 0, 0, 0, 0, 0, 0, 0, 0, 0, 0, 0, 0, 0, 0, 0, 0, 0, 0]"

definition flip_market_prices :: "real list" where
  "flip_market_prices =
     [1, 2, 1, 2, 1, 2, 1, 2, 1, 2, 1, 2, 1, 2, 1, 2, 1, 2, 1, 2, 1, 2, 1, 2, 1, 2, 1, 2, 1, 2,
      1, 2, 1, 2, 1, 2, 1, 2, 1, 2, 1, 2, 1, 2, 1, 2, 1, 2, 1, 2, 1, 2, 1]"

definition flip_market :: series where
  "flip_market = zip [0..<53] flip_market_prices"

definition flip_market_ret :: "real list" where
  "flip_market_ret =
     [1, - (1 / 2), 1, - (1 / 2), 1, - (1 / 2), 1, - (1 / 2), 1, - (1 / 2), 1, - (1 / 2), 1,
      - (1 / 2), 1, - (1 / 2), 1, - (1 / 2), 1, - (1 / 2), 1, - (1 / 2), 1, - (1 / 2), 1,
      - (1 / 2), 1, - (1 / 2), 1, - (1 / 2), 1, - (1 / 2), 1, - (1 / 2), 1, - (1 / 2), 1,
      - (1 / 2), 1, - (1 / 2), 1, - (1 / 2), 1, - (1 / 2), 1, - (1 / 2), 1, - (1 / 2), 1,
      - (1 / 2), 1, - (1 / 2)]"

definition calm_market_prices :: "real list" where
  "calm_market_prices =
     [4, 5, 4, 6, 4, 4, 4, 4, 4, 4, 4, 4, 4, 4, 4, 4, 4, 4, 4, 4, 4, 4, 4, 4, 4, 4, 4, 4, 4, 4,
      4, 4, 4, 4, 4, 4, 4, 4, 4, 4, 4, 4, 4, 4, 4, 4, 4, 4, 4, 4, 4, 4, 4]"

definition calm_market :: series where
  "calm_market = zip [0..<53] calm_market_prices"

definition calm_market_ret :: "real list" where
  "calm_market_ret =
     [1 / 4, - (1 / 5), 1 / 2, - (1 / 3), 0, 0, 0, 0, 0, 0, 0, 0, 0, 0, 0, 0, 0, 0, 0, 0, 0, 0,
      0, 0, 0, 0, 0, 0, 0, 0, 0, 0, 0, 0, 0, 0, 0, 0, 0, 0, 0, 0, 0, 0, 0, 0, 0, 0, 0, 0, 0, 0]"

text \<open>An array of 25 equal positive returns, of 1/64 each.\<close>

definition steady_returns :: "real list" where
  "steady_returns =
     [1 / 64, 1 / 64, 1 / 64, 1 / 64, 1 / 64, 1 / 64, 1 / 64, 1 / 64, 1 / 64, 1 / 64, 1 / 64,
      1 / 64, 1 / 64, 1 / 64, 1 / 64, 1 / 64, 1 / 64, 1 / 64, 1 / 64, 1 / 64, 1 / 64, 1 / 64,
      1 / 64, 1 / 64, 1 / 64]"

text \<open>
  Two series of 52 closes on the days 0 to 52: the first has no row for day 10, the second
  none for day 20.
\<close>

definition gap_nvda :: series where
  "gap_nvda = zip ([0..<10] @ [11..<53]) (take 52 wave_stock_prices)"

definition gap_spy :: series where
  "gap_spy = zip ([0..<20] @ [21..<53]) (take 52 wave_market_prices)"

text \<open>A download of three rows, all with a price.\<close>

definition short_frame :: frame where
  "short_frame = \<lparr> frame_index = [0, 1, 2], adj_close_column = None,
                     close_column = Some [Some 8, Some 8, Some 4] \<rparr>"

text \<open>
  The aligned returns of the specification's concrete scenario, and two short price series.
\<close>

definition scenario_asset :: "real list" where
  "scenario_asset = [2 / 100, - (1 / 100), 3 / 100, 0, 15 / 1000]"

definition scenario_benchmark :: "real list" where
  "scenario_benchmark = [1 / 100, - (5 / 1000), 2 / 100, 0, 1 / 100]"

definition three_closes :: series where
  "three_closes = [(3, 8), (4, 4), (7, 5)]"

definition one_close :: series where
  "one_close = [(3, 8)]"

text \<open>A download of the 53 rows of \<open>wave_stock\<close>, with the price in the column \<open>Close\<close>.\<close>

definition wave_frame :: frame where
  "wave_frame = \<lparr> frame_index = [0..<53], adj_close_column = None,
                    close_column = Some (map Some wave_stock_prices) \<rparr>"

section \<open>Properties\<close>

subsection \<open>Returns and alignment\<close>

lemma dropna_pct_change:
  "dropna (pct_change s) = map (\<lambda>((d0, prev), (d1, cur)). (d1, cur / prev - 1)) (zip s (tl s))"
proof (cases s)
  case Nil
  then show ?thesis by (simp add: pct_change_def dropna_def)
next
  case (Cons row rest)
  obtain d p where row: "row = (d, p)" by (cases row)
  have "dropna (map (\<lambda>((d0, prev), (d1, cur)). (d1, Some (cur / prev - 1))) zs)
        = map (\<lambda>((d0, prev), (d1, cur)). (d1, cur / prev - 1)) zs" for zs :: "((date \<times> real) \<times> (date \<times> real)) list"
    by (induction zs) (auto simp: dropna_def)
  then show ?thesis
    using Cons row by (simp add: pct_change_def dropna_def)
qed

lemma index_returns:
  "index (dropna (pct_change s)) = tl (index s)"
proof -
  have "map fst (map (\<lambda>((d0, prev), (d1, cur)). (d1, f prev cur)) (zip xs ys)) = take (length xs) (map fst ys)"
    for xs ys :: series and f :: "real \<Rightarrow> real \<Rightarrow> real"
    by (induction xs ys rule: list_induct2') auto
  from this [of "\<lambda>prev cur. cur / prev - 1" s "tl s"] show ?thesis
    by (simp add: dropna_pct_change index_def map_tl)
qed

lemma values_returns:
  "values_of (dropna (pct_change s)) =
     map2 (\<lambda>prev cur. cur / prev - 1) (values_of s) (tl (values_of s))"
proof -
  have "map snd (map (\<lambda>((d0, prev), (d1, cur)). (d1, f prev cur)) (zip xs ys))
        = map2 f (map snd xs) (map snd ys)"
    for xs ys :: series and f :: "real \<Rightarrow> real \<Rightarrow> real"
    by (induction xs ys rule: list_induct2') auto
  from this [of "\<lambda>prev cur. cur / prev - 1" s "tl s"] show ?thesis
    by (simp add: dropna_pct_change values_of_def map_tl)
qed

lemma length_returns:
  "length (dropna (pct_change s)) = length s - 1"
  by (simp add: dropna_pct_change)

lemma loc_rows:
  assumes "distinct (index s)" and "set rows \<subseteq> set s"
  shows "loc s (index rows) = Some rows"
  using assms(2)
proof (induction rows)
  case Nil
  then show ?case by (simp add: index_def)
next
  case (Cons row rows)
  obtain d v where row: "row = (d, v)" by (cases row)
  with Cons.prems have "(d, v) \<in> set s" by simp
  with assms(1) have "map_of s d = Some v" by (simp add: index_def)
  moreover have "loc s (index rows) = Some rows" using Cons by simp
  ultimately show ?case using row by (simp add: index_def)
qed

lemma loc_index_self:
  "distinct (index s) \<Longrightarrow> loc s (index s) = Some s"
  by (simp add: loc_rows)

lemma loc_defined:
  "set ds \<subseteq> set (index s) \<Longrightarrow> \<exists>rows. loc s ds = Some rows \<and> index rows = ds"
proof (induction ds)
  case Nil
  then show ?case by (simp add: index_def)
next
  case (Cons d ds)
  then have "d \<in> fst ` set s" by (simp add: index_def)
  then obtain v where "map_of s d = Some v"
    by (metis domIff dom_map_of_conv_image_fst not_Some_eq)
  moreover obtain rows where "loc s ds = Some rows" "index rows = ds" using Cons by auto
  ultimately show ?case by (simp add: index_def)
qed

lemma length_index: "length (index s) = length s"
  by (simp add: index_def)

lemma intersection_self: "intersection a a = a"
  by (simp add: intersection_def)

lemma simple_aligned_same_index:
  assumes "distinct (index stock_data)" and "index market_data = index stock_data"
    and "50 \<le> length stock_data"
  shows "simple_aligned stock_data market_data =
           Some (values_of (dropna (pct_change stock_data)), values_of (dropna (pct_change market_data)))"
proof -
  have len: "length market_data = length stock_data"
    using assms(2) by (metis index_def length_map)
  have "loc market_data (index stock_data) = Some market_data"
    using assms(1,2) loc_index_self [of market_data] by simp
  then show ?thesis
    using assms len
    by (simp add: simple_aligned_def intersection_self loc_index_self length_returns length_index
        values_of_def Let_def)
qed

lemma fixed_aligned_same_index:
  assumes "distinct (index stock_close)" and "index market_close = index stock_close"
    and "51 \<le> length stock_close"
  shows "fixed_aligned stock_close market_close =
           Some (values_of (dropna (pct_change stock_close)), values_of (dropna (pct_change market_close)))"
proof -
  have d: "distinct (index (dropna (pct_change stock_close)))"
    using assms(1) by (simp add: index_returns distinct_tl)
  have i: "index (dropna (pct_change market_close)) = index (dropna (pct_change stock_close))"
    using assms(2) by (simp add: index_returns)
  have "loc (dropna (pct_change market_close)) (index (dropna (pct_change stock_close)))
          = Some (dropna (pct_change market_close))"
    using d i loc_index_self [of "dropna (pct_change market_close)"] by simp
  moreover have "\<not> length (index (dropna (pct_change stock_close))) < 50"
    using assms(3) by (simp add: length_index length_returns)
  ultimately show ?thesis
    using d by (simp add: fixed_aligned_def i intersection_self loc_index_self Let_def)
qed

subsection \<open>Covariance, variance and slope\<close>

lemma cross_dev_commute:
  "cross_dev xs ys = cross_dev ys xs"
proof -
  have "map2 (\<lambda>a b. (a - p) * (b - q)) xs ys = map2 (\<lambda>a b. (a - q) * (b - p)) ys xs" for p q :: real
  proof (induction xs arbitrary: ys)
    case Nil
    then show ?case by simp
  next
    case (Cons x xs)
    then show ?case by (cases ys) (simp_all add: mult.commute)
  qed
  then show ?thesis by (simp add: cross_dev_def)
qed

lemma np_var_ddof1_pos_length:
  assumes "0 < np_var_ddof1 xs"
  shows "2 \<le> length xs"
proof (rule ccontr)
  assume "\<not> 2 \<le> length xs"
  then consider "xs = []" | x where "xs = [x]"
    by (cases xs) (auto simp: not_le less_Suc_eq)
  then show False
    using assms by cases (simp_all add: np_var_ddof1_def cross_dev_def np_mean_def)
qed

lemma sample_ratio_is_slope:
  assumes len: "length stock_ret = length market_ret"
    and var: "0 < np_var_ddof1 market_ret"
  shows "np_cov stock_ret market_ret / np_var_ddof1 market_ret =
         cross_dev market_ret stock_ret / cross_dev market_ret market_ret"
proof -
  have "2 \<le> length market_ret" using var by (rule np_var_ddof1_pos_length)
  then have "real (length market_ret) - 1 \<noteq> 0" by simp
  then show ?thesis
    by (simp add: np_cov_def np_var_ddof1_def len cross_dev_commute [of stock_ret market_ret])
qed

lemma linregress_slope_eq:
  assumes "0 < np_var_ddof1 xs"
  shows "linregress_slope xs ys = cross_dev xs ys / cross_dev xs xs"
proof -
  have "2 \<le> length xs" using assms by (rule np_var_ddof1_pos_length)
  then have "xs \<noteq> []" by auto
  then show ?thesis by (simp add: linregress_slope_def)
qed

text \<open>
  C3. On aligned return arrays whose benchmark variance is positive, the covariance/variance
  beta with the sample convention on both sides (method A of \<open>get_yahoo_style_beta\<close>, and
  \<open>beta_cov_numpy\<close> and \<open>beta_cov_manual\<close> of \<open>demonstrate_with_real_data\<close>) equals the
  regression slope (\<open>linregress\<close>, and the slope written out), hence lies within the
  relative tolerance \<open>1e-9\<close> of it. The equality is the one of exact arithmetic.
\<close>

theorem cov_var_beta_equals_ols_slope:
  assumes "length stock_ret = length market_ret"
    and "0 < np_var_ddof1 market_ret"
  shows "beta_a stock_ret market_ret = beta_b stock_ret market_ret
       \<and> beta_cov_numpy stock_ret market_ret = beta_reg_manual stock_ret market_ret
       \<and> beta_cov_manual stock_ret market_ret = beta_reg_manual stock_ret market_ret
       \<and> \<bar>beta_a stock_ret market_ret - beta_b stock_ret market_ret\<bar>
           \<le> (1 / 10 ^ 9) * \<bar>beta_b stock_ret market_ret\<bar>"
proof -
  have a: "beta_a stock_ret market_ret = beta_b stock_ret market_ret"
    using assms by (simp add: beta_a_def beta_b_def sample_ratio_is_slope linregress_slope_eq)
  have b: "beta_cov_numpy stock_ret market_ret = beta_reg_manual stock_ret market_ret"
    using assms by (simp add: beta_cov_numpy_def beta_reg_manual_def sample_ratio_is_slope)
  have "beta_cov_manual stock_ret market_ret = beta_cov_numpy stock_ret market_ret"
    using assms(1) by (simp add: beta_cov_manual_def beta_cov_numpy_def np_cov_def np_var_ddof1_def)
  with a b show ?thesis by simp
qed

theorem cov_var_beta_equals_ols_slope_witness:
  "length [2, -1, 3, 0, 3 / 2 :: real] = length [1, -1 / 2, 2, 0, 1 :: real]
   \<and> 0 < np_var_ddof1 [1, -1 / 2, 2, 0, 1]
   \<and> beta_a [2, -1, 3, 0, 3 / 2] [1, -1 / 2, 2, 0, 1] = beta_b [2, -1, 3, 0, 3 / 2] [1, -1 / 2, 2, 0, 1]
   \<and> beta_b [2, -1, 3, 0, 3 / 2] [1, -1 / 2, 2, 0, 1] = 123 / 76"
proof -
  have v: "0 < np_var_ddof1 [1, -1 / 2, 2, 0, 1]"
    by (simp add: np_var_ddof1_def cross_dev_def np_mean_def)
  have s: "beta_b [2, -1, 3, 0, 3 / 2] [1, -1 / 2, 2, 0, 1] = 123 / 76"
    by (simp add: beta_b_def linregress_slope_def cross_dev_def np_mean_def)
  show ?thesis
    using cov_var_beta_equals_ols_slope [of "[2, -1, 3, 0, 3 / 2]" "[1, -1 / 2, 2, 0, 1]"] v s
    by simp
qed

subsection \<open>The sample inputs\<close>

lemma sample_index:
  "index wave_market = [0..<53]"
  "index wave_stock = [0..<53]"
  "index flat_market = [0..<53]"
  "index flip_market = [0..<53]"
  "index calm_market = [0..<53]"
  by (simp_all add: index_def wave_market_def wave_market_prices_def wave_stock_def wave_stock_prices_def flat_market_def flat_market_prices_def flip_market_def flip_market_prices_def calm_market_def calm_market_prices_def)

lemma sample_values:
  "values_of wave_market = wave_market_prices"
  "values_of wave_stock = wave_stock_prices"
  "values_of flat_market = flat_market_prices"
  "values_of flip_market = flip_market_prices"
  "values_of calm_market = calm_market_prices"
  by (simp_all add: values_of_def wave_market_def wave_market_prices_def wave_stock_def wave_stock_prices_def flat_market_def flat_market_prices_def flip_market_def flip_market_prices_def calm_market_def calm_market_prices_def)

lemma sample_length:
  "length wave_market = 53"
  "length wave_stock = 53"
  "length flat_market = 53"
  "length flip_market = 53"
  "length calm_market = 53"
  by (simp_all add: wave_market_def wave_market_prices_def wave_stock_def wave_stock_prices_def flat_market_def flat_market_prices_def flip_market_def flip_market_prices_def calm_market_def calm_market_prices_def)

lemma sample_distinct:
  "distinct (index wave_market)"
  "distinct (index wave_stock)"
  "distinct (index flat_market)"
  "distinct (index flip_market)"
  "distinct (index calm_market)"
  by (simp_all only: sample_index distinct_upt)

lemma sample_price_series:
  "price_series wave_market"
  "price_series wave_stock"
  "price_series flat_market"
  "price_series flip_market"
  "price_series calm_market"
  unfolding price_series_def sample_index sample_values
  by (simp_all add: wave_market_prices_def wave_stock_prices_def flat_market_prices_def flip_market_prices_def calm_market_prices_def)

lemma sample_returns:
  "values_of (dropna (pct_change wave_market)) = wave_market_ret"
  "values_of (dropna (pct_change wave_stock)) = wave_stock_ret"
  "values_of (dropna (pct_change flat_market)) = flat_market_ret"
  "values_of (dropna (pct_change flip_market)) = flip_market_ret"
  "values_of (dropna (pct_change calm_market)) = calm_market_ret"
  unfolding values_returns sample_values
  by (simp_all add: wave_market_prices_def wave_market_ret_def wave_stock_prices_def wave_stock_ret_def flat_market_prices_def flat_market_ret_def flip_market_prices_def flip_market_ret_def calm_market_prices_def calm_market_ret_def)

lemma simple_estimate_wave_stock_wave_market:
  "simple_estimate exact_numpy wave_stock_ret wave_market_ret =
     Some \<lparr>beta = - (65000 / 110619), positive_beta = Some 0, negative_beta = Some (- (117 / 10)),
            data_points = 52, positive_days = 26, negative_days = 26\<rparr>"
  by (simp add: simple_estimate_def exact_numpy_def directional_beta_def np_cov_def np_var_def cross_dev_def np_mean_def
      masked_def positive_mask_def negative_mask_def np_sum_def
      wave_market_ret_def wave_stock_ret_def)

lemma simple_estimate_wave_market_wave_market:
  "simple_estimate exact_numpy wave_market_ret wave_market_ret =
     Some \<lparr>beta = 52 / 51, positive_beta = Some (26 / 25), negative_beta = Some (26 / 25),
            data_points = 52, positive_days = 26, negative_days = 26\<rparr>"
  by (simp add: simple_estimate_def exact_numpy_def directional_beta_def np_cov_def np_var_def cross_dev_def np_mean_def
      masked_def positive_mask_def negative_mask_def np_sum_def
      wave_market_ret_def)

lemma simple_estimate_wave_stock_flip_market:
  "simple_estimate exact_numpy wave_stock_ret flip_market_ret =
     Some \<lparr>beta = - (26 / 153), positive_beta = None, negative_beta = None,
            data_points = 52, positive_days = 26, negative_days = 26\<rparr>"
  by (simp add: simple_estimate_def exact_numpy_def directional_beta_def np_cov_def np_var_def cross_dev_def np_mean_def
      masked_def positive_mask_def negative_mask_def np_sum_def
      flip_market_ret_def wave_stock_ret_def)

lemma simple_estimate_wave_stock_calm_market:
  "simple_estimate exact_numpy wave_stock_ret calm_market_ret =
     Some \<lparr>beta = - (65000 / 113271), positive_beta = None, negative_beta = None,
            data_points = 52, positive_days = 2, negative_days = 2\<rparr>"
  by (simp add: simple_estimate_def exact_numpy_def directional_beta_def np_cov_def np_var_def cross_dev_def np_mean_def
      masked_def positive_mask_def negative_mask_def np_sum_def
      calm_market_ret_def wave_stock_ret_def)

lemma np_var_flat: "np_var flat_market_ret = 0"
  by (simp add: np_var_def cross_dev_def np_mean_def flat_market_ret_def)

lemma fixed_estimate_wave_stock_wave_market:
  "fixed_estimate exact_numpy wave_stock_ret wave_market_ret =
     Some \<lparr>traditional_beta = - (65000 / 110619), fixed_positive_beta = Some 0, fixed_negative_beta = Some (- (117 / 10)),
            beta_ratio = None, fixed_data_points = 52, fixed_positive_days = 26,
            fixed_negative_days = 26\<rparr>"
  by (simp add: fixed_estimate_def exact_numpy_def directional_beta_def py_truthy_def np_cov_def np_var_def cross_dev_def
      np_mean_def masked_def positive_mask_def negative_mask_def np_sum_def
      wave_market_ret_def wave_stock_ret_def)

lemma fixed_estimate_wave_stock_calm_market:
  "fixed_estimate exact_numpy wave_stock_ret calm_market_ret =
     Some \<lparr>traditional_beta = - (65000 / 113271), fixed_positive_beta = None, fixed_negative_beta = None,
            beta_ratio = None, fixed_data_points = 52, fixed_positive_days = 2,
            fixed_negative_days = 2\<rparr>"
  by (simp add: fixed_estimate_def exact_numpy_def directional_beta_def py_truthy_def np_cov_def np_var_def cross_dev_def
      np_mean_def masked_def positive_mask_def negative_mask_def np_sum_def
      calm_market_ret_def wave_stock_ret_def)



subsection \<open>The shape of the estimators\<close>

lemma loc_index: "loc s ds = Some rows \<Longrightarrow> index rows = ds"
proof (induction ds arbitrary: rows)
  case Nil
  then show ?case by (simp add: index_def)
next
  case (Cons d ds)
  then show ?case by (auto simp: index_def split: option.splits)
qed

lemma simple_aligned_lengths:
  assumes "simple_aligned stock_data market_data = Some (sr, mr)"
  shows "length sr = length mr \<and> 49 \<le> length sr"
proof -
  let ?common = "intersection (index stock_data) (index market_data)"
  from assms have n: "50 \<le> length ?common"
    by (simp add: simple_aligned_def Let_def split: if_splits)
  from assms obtain sa ma where sa: "loc stock_data ?common = Some sa"
    and ma: "loc market_data ?common = Some ma"
    and sr: "sr = take (min (length (dropna (pct_change sa))) (length (dropna (pct_change ma))))
                    (values_of (dropna (pct_change sa)))"
    and mr: "mr = take (min (length (dropna (pct_change sa))) (length (dropna (pct_change ma))))
                    (values_of (dropna (pct_change ma)))"
    by (auto simp: simple_aligned_def Let_def split: if_splits option.splits)
  have "length sa = length ?common" "length ma = length ?common"
    using loc_index [OF sa] loc_index [OF ma] by (metis length_index)+
  then show ?thesis
    using n by (simp add: sr mr length_returns values_of_def)
qed

lemma calculate_beta_simple_Some:
  assumes "calculate_beta_simple N stock_data market_data = Some r"
  shows "\<exists>sr mr. simple_aligned stock_data market_data = Some (sr, mr) \<and> simple_estimate N sr mr = Some r"
  using assms by (auto simp: calculate_beta_simple_def split: option.splits)

lemma simple_estimate_Some:
  assumes "simple_estimate N sr mr = Some r"
  shows "variance N mr \<noteq> 0"
    and "beta r = cov01 N sr mr / variance N mr"
    and "positive_beta r = directional_beta N 10 sr mr (positive_mask mr)"
    and "negative_beta r = directional_beta N 10 sr mr (negative_mask mr)"
    and "data_points r = length sr"
    and "positive_days r = np_sum (positive_mask mr)"
    and "negative_days r = np_sum (negative_mask mr)"
  using assms by (auto simp: simple_estimate_def Let_def split: if_splits)

lemma calculate_beta_fixed_Some:
  assumes "calculate_beta_fixed N (Some stock_close) (Some market_close) = Some r"
  shows "\<exists>sa ma. fixed_aligned stock_close market_close = Some (sa, ma) \<and> fixed_estimate N sa ma = Some r"
  using assms by (auto simp: calculate_beta_fixed_def split: option.splits)

lemma fixed_estimate_Some:
  assumes "fixed_estimate N sa ma = Some r"
  shows "variance N ma \<noteq> 0"
    and "traditional_beta r = cov01 N sa ma / variance N ma"
    and "fixed_positive_beta r = directional_beta N 20 sa ma (positive_mask ma)"
    and "fixed_negative_beta r = directional_beta N 20 sa ma (negative_mask ma)"
    and "fixed_data_points r = length sa"
    and "fixed_positive_days r = np_sum (positive_mask ma)"
    and "fixed_negative_days r = np_sum (negative_mask ma)"
  using assms by (auto simp: fixed_estimate_def Let_def split: if_splits)

lemma sample_simple_aligned:
  "simple_aligned wave_stock wave_market = Some (wave_stock_ret, wave_market_ret)"
  "simple_aligned wave_market wave_market = Some (wave_market_ret, wave_market_ret)"
  "simple_aligned wave_stock flat_market = Some (wave_stock_ret, flat_market_ret)"
  "simple_aligned wave_stock flip_market = Some (wave_stock_ret, flip_market_ret)"
  "simple_aligned wave_stock calm_market = Some (wave_stock_ret, calm_market_ret)"
  by (simp_all add: simple_aligned_same_index sample_distinct sample_index sample_length sample_returns)

lemma sample_fixed_aligned:
  "fixed_aligned wave_stock wave_market = Some (wave_stock_ret, wave_market_ret)"
  "fixed_aligned wave_stock flat_market = Some (wave_stock_ret, flat_market_ret)"
  by (simp_all add: fixed_aligned_same_index sample_distinct sample_index sample_length sample_returns)

subsection \<open>The traditional beta\<close>

lemma np_var_conventions:
  assumes "2 \<le> length xs"
  shows "np_var xs = (real (length xs) - 1) / real (length xs) * np_var_ddof1 xs"
  using assms by (simp add: np_var_def np_var_ddof1_def)

lemma beta_simple_scaled:
  assumes "simple_aligned stock_data market_data = Some (sr, mr)"
    and "calculate_beta_simple exact_numpy stock_data market_data = Some r"
  shows "beta r = real (length mr) / (real (length mr) - 1) * (np_cov sr mr / np_var_ddof1 mr)"
proof -
  have n: "2 \<le> length mr"
    using simple_aligned_lengths [OF assms(1)] by simp
  from assms have "simple_estimate exact_numpy sr mr = Some r"
    by (simp add: calculate_beta_simple_def)
  then have "beta r = np_cov sr mr / np_var mr"
    using simple_estimate_Some(2) [of exact_numpy sr mr r] by (simp add: exact_numpy_def)
  then show ?thesis
    using n by (simp add: np_var_conventions)
qed

text \<open>
  C1. \<open>calculate_beta_simple\<close> divides the sample covariance of \<open>np.cov\<close> by the population
  variance of \<open>np.var\<close>. For a stock that is the market itself (\<open>wave_market\<close> against
  \<open>wave_market\<close>, 52 aligned returns) it returns the beta 52/51, where the quotient of sample
  covariance and sample variance is 1.
\<close>

theorem calculate_beta_simple_population_variance:
  "simple_aligned wave_market wave_market = Some (wave_market_ret, wave_market_ret)
   \<and> map_option beta (calculate_beta_simple exact_numpy wave_market wave_market) = Some (52 / 51)
   \<and> np_cov wave_market_ret wave_market_ret / np_var_ddof1 wave_market_ret = 1"
proof -
  have "np_cov wave_market_ret wave_market_ret / np_var_ddof1 wave_market_ret = 1"
    by (simp add: np_cov_def np_var_ddof1_def cross_dev_def np_mean_def wave_market_ret_def)
  then show ?thesis
    by (simp add: calculate_beta_simple_def sample_simple_aligned simple_estimate_wave_market_wave_market)
qed

lemma sample_insufficient:
  "simple_aligned three_closes wave_market = None"
  "calculate_beta_simple N three_closes wave_market = None"
proof -
  have "length (intersection (index three_closes) (index wave_market)) \<le> length three_closes"
    by (simp add: intersection_def index_def)
  then show "simple_aligned three_closes wave_market = None"
    by (simp add: simple_aligned_def three_closes_def)
  then show "calculate_beta_simple N three_closes wave_market = None"
    by (simp add: calculate_beta_simple_def)
qed

text \<open>
  C6, as the code has it. With price series as the provider returns them, a window on which
  \<open>np.var(market_ret)\<close> returns exactly zero makes \<open>calculate_beta_simple\<close> and
  \<open>calculate_beta_fixed\<close> return \<open>None\<close>, and a beta they do return is the quotient by a
  result of \<open>np.var\<close> that is not zero: no beta comes from a division by zero.
\<close>

theorem zero_variance_returns_None:
  assumes "price_series stock_data" and "price_series market_data"
  shows "(simple_aligned stock_data market_data = Some (sr, mr) \<and> variance N mr = 0
            \<longrightarrow> calculate_beta_simple N stock_data market_data = None)
       \<and> (fixed_aligned stock_data market_data = Some (sr, mr) \<and> variance N mr = 0
            \<longrightarrow> calculate_beta_fixed N (Some stock_data) (Some market_data) = None)
       \<and> (calculate_beta_simple N stock_data market_data = Some r
            \<longrightarrow> (\<exists>sr mr. simple_aligned stock_data market_data = Some (sr, mr)
                    \<and> variance N mr \<noteq> 0 \<and> beta r = cov01 N sr mr / variance N mr))
       \<and> (calculate_beta_fixed N (Some stock_data) (Some market_data) = Some fr
            \<longrightarrow> (\<exists>sr mr. fixed_aligned stock_data market_data = Some (sr, mr)
                    \<and> variance N mr \<noteq> 0 \<and> traditional_beta fr = cov01 N sr mr / variance N mr))"
proof (intro conjI impI)
  assume "simple_aligned stock_data market_data = Some (sr, mr) \<and> variance N mr = 0"
  then show "calculate_beta_simple N stock_data market_data = None"
    by (simp add: calculate_beta_simple_def simple_estimate_def)
next
  assume "fixed_aligned stock_data market_data = Some (sr, mr) \<and> variance N mr = 0"
  then show "calculate_beta_fixed N (Some stock_data) (Some market_data) = None"
    by (simp add: calculate_beta_fixed_def fixed_estimate_def)
next
  assume "calculate_beta_simple N stock_data market_data = Some r"
  then obtain sr mr where "simple_aligned stock_data market_data = Some (sr, mr)"
    and "simple_estimate N sr mr = Some r"
    using calculate_beta_simple_Some by blast
  then show "\<exists>sr mr. simple_aligned stock_data market_data = Some (sr, mr)
                    \<and> variance N mr \<noteq> 0 \<and> beta r = cov01 N sr mr / variance N mr"
    using simple_estimate_Some(1,2) by blast
next
  assume "calculate_beta_fixed N (Some stock_data) (Some market_data) = Some fr"
  then obtain sa ma where "fixed_aligned stock_data market_data = Some (sa, ma)"
    and "fixed_estimate N sa ma = Some fr"
    using calculate_beta_fixed_Some by blast
  then show "\<exists>sr mr. fixed_aligned stock_data market_data = Some (sr, mr)
                    \<and> variance N mr \<noteq> 0 \<and> traditional_beta fr = cov01 N sr mr / variance N mr"
    using fixed_estimate_Some(1,2) by blast
qed

theorem zero_variance_returns_None_witness:
  "price_series wave_stock \<and> price_series flat_market \<and> price_series wave_market
   \<and> simple_aligned wave_stock flat_market = Some (wave_stock_ret, flat_market_ret)
   \<and> fixed_aligned wave_stock flat_market = Some (wave_stock_ret, flat_market_ret)
   \<and> variance exact_numpy flat_market_ret = 0
   \<and> calculate_beta_simple exact_numpy wave_stock flat_market = None
   \<and> calculate_beta_fixed exact_numpy (Some wave_stock) (Some flat_market) = None
   \<and> map_option beta (calculate_beta_simple exact_numpy wave_stock wave_market)
       = Some (- (65000 / 110619))
   \<and> map_option traditional_beta (calculate_beta_fixed exact_numpy (Some wave_stock) (Some wave_market))
       = Some (- (65000 / 110619))"
proof -
  have v: "variance exact_numpy flat_market_ret = 0"
    by (simp add: exact_numpy_def np_var_flat)
  have b: "map_option beta (calculate_beta_simple exact_numpy wave_stock wave_market)
             = Some (- (65000 / 110619))"
    "map_option traditional_beta (calculate_beta_fixed exact_numpy (Some wave_stock) (Some wave_market))
       = Some (- (65000 / 110619))"
    by (simp_all add: calculate_beta_simple_def calculate_beta_fixed_def sample_simple_aligned
        sample_fixed_aligned simple_estimate_wave_stock_wave_market
        fixed_estimate_wave_stock_wave_market)
  show ?thesis
    using zero_variance_returns_None
        [OF sample_price_series(2) sample_price_series(3), of wave_stock_ret flat_market_ret exact_numpy]
      zero_variance_returns_None [OF sample_price_series(2) sample_price_series(1), of _ _ exact_numpy]
      sample_price_series sample_simple_aligned sample_fixed_aligned v b
    by simp
qed

text \<open>
  C6, as the specification has it, fails: the failure for a variance of zero is not an
  error of its own. For the flat benchmark \<open>flat_market\<close>, whose 52 returns are all 0,
  \<open>calculate_beta_simple\<close> returns \<open>None\<close>, the value it returns for a sample of three
  closes, which is too small.
\<close>

theorem zero_variance_failure_is_plain_None:
  "simple_aligned wave_stock flat_market = Some (wave_stock_ret, flat_market_ret)
   \<and> np_var flat_market_ret = 0
   \<and> simple_aligned three_closes wave_market = None
   \<and> calculate_beta_simple exact_numpy wave_stock flat_market = None
   \<and> calculate_beta_simple exact_numpy three_closes wave_market = None"
  by (simp add: sample_simple_aligned np_var_flat sample_insufficient calculate_beta_simple_def
      simple_estimate_def exact_numpy_def)

text \<open>
  C7. \<open>calculate_beta_fixed\<close> tests the two directional betas by their truth value, and
  Python's \<open>0.0\<close> is false. On \<open>wave_stock\<close> against \<open>wave_market\<close> the positive beta is
  available and 0 (the stock does not move on the 26 days the market rises), the negative
  beta is available and not 0, and the ratio is \<open>None\<close> and not 0.
\<close>

theorem beta_ratio_absent_for_zero_positive_beta:
  "map_option fixed_positive_beta
     (calculate_beta_fixed exact_numpy (Some wave_stock) (Some wave_market)) = Some (Some 0)
   \<and> map_option fixed_negative_beta
     (calculate_beta_fixed exact_numpy (Some wave_stock) (Some wave_market)) = Some (Some (- (117 / 10)))
   \<and> map_option beta_ratio
     (calculate_beta_fixed exact_numpy (Some wave_stock) (Some wave_market)) = Some None"
  by (simp add: calculate_beta_fixed_def sample_fixed_aligned fixed_estimate_wave_stock_wave_market)


subsection \<open>Returns of a price series\<close>

lemma nth_values_returns:
  assumes "Suc k < length s"
  shows "values_of (dropna (pct_change s)) ! k = values_of s ! Suc k / values_of s ! k - 1"
proof -
  have "k < length (tl (values_of s))" "k < length (values_of s)"
    using assms by (simp_all add: values_of_def)
  then show ?thesis
    by (simp add: values_returns nth_tl)
qed

lemma nth_diff_returns:
  assumes "Suc k < length prices"
  shows "diff_returns prices ! k = (prices ! Suc k - prices ! k) / prices ! k"
proof -
  have k: "k < length (tl prices)" "k < length (butlast prices)"
    using assms by simp_all
  then have "np_diff prices ! k = prices ! Suc k - prices ! k"
    by (simp add: np_diff_def nth_tl nth_butlast)
  moreover have "k < length (np_diff prices)"
    using k by (simp add: np_diff_def)
  ultimately show ?thesis
    using k by (simp add: diff_returns_def nth_butlast)
qed

lemma length_diff_returns: "length (diff_returns prices) = length prices - 1"
  by (simp add: diff_returns_def np_diff_def)

text \<open>
  C8, as the code has it. For a price series with positive prices, the entry of the return
  series for the row \<open>i \<ge> 1\<close> is \<open>(price[i] - price[i-1]) / price[i-1]\<close> and carries the date
  of that row, with \<open>pct_change().dropna()\<close> as with \<open>np.diff(prices) / prices[:-1]\<close>; a
  series of at least two points gives one return less than it has points; a series of
  fewer than two points gives the empty return series.
\<close>

theorem returns_between_consecutive_prices:
  "(list_all (\<lambda>p. 0 < p) (values_of s) \<and> 1 \<le> i \<and> i < length s \<longrightarrow>
      values_of (dropna (pct_change s)) ! (i - 1)
        = (values_of s ! i - values_of s ! (i - 1)) / values_of s ! (i - 1)
      \<and> diff_returns (values_of s) ! (i - 1)
        = (values_of s ! i - values_of s ! (i - 1)) / values_of s ! (i - 1)
      \<and> index (dropna (pct_change s)) ! (i - 1) = index s ! i)
   \<and> (2 \<le> length s \<longrightarrow>
      length (dropna (pct_change s)) + 1 = length s
      \<and> length (diff_returns (values_of s)) + 1 = length s)
   \<and> (length s < 2 \<longrightarrow> dropna (pct_change s) = [] \<and> diff_returns (values_of s) = [])"
proof (intro conjI impI)
  assume a: "list_all (\<lambda>p. 0 < p) (values_of s) \<and> 1 \<le> i \<and> i < length s"
  then obtain k where i: "i = Suc k" by (cases i) auto
  with a have k: "Suc k < length s" by simp
  then have "k < length (values_of s)" by (simp add: values_of_def)
  with a have pos: "0 < values_of s ! k" by (simp add: list_all_length)
  have "values_of s ! Suc k / values_of s ! k - 1
        = (values_of s ! Suc k - values_of s ! k) / values_of s ! k"
    using pos by (simp add: diff_divide_distrib)
  then show "values_of (dropna (pct_change s)) ! (i - 1)
        = (values_of s ! i - values_of s ! (i - 1)) / values_of s ! (i - 1)"
    using k by (simp add: i nth_values_returns)
  show "diff_returns (values_of s) ! (i - 1)
        = (values_of s ! i - values_of s ! (i - 1)) / values_of s ! (i - 1)"
    using k by (simp add: i nth_diff_returns values_of_def)
  have "k < length (tl (index s))" using k by (simp add: index_def)
  then show "index (dropna (pct_change s)) ! (i - 1) = index s ! i"
    by (simp add: i index_returns nth_tl)
next
  assume "2 \<le> length s"
  then show "length (dropna (pct_change s)) + 1 = length s"
    by (simp add: length_returns)
next
  assume "2 \<le> length s"
  then show "length (diff_returns (values_of s)) + 1 = length s"
    by (simp add: length_diff_returns values_of_def)
next
  assume "length s < 2"
  then have "length (dropna (pct_change s)) = 0"
    by (simp add: length_returns)
  then show "dropna (pct_change s) = []" by simp
next
  assume "length s < 2"
  then have "length (diff_returns (values_of s)) = 0"
    by (simp add: length_diff_returns values_of_def)
  then show "diff_returns (values_of s) = []" by simp
qed

theorem returns_between_consecutive_prices_witness:
  "list_all (\<lambda>p. 0 < p) (values_of three_closes) \<and> (1 :: nat) \<le> 2 \<and> 2 < length three_closes
   \<and> values_of (dropna (pct_change three_closes)) ! (2 - 1) = 1 / 4
   \<and> diff_returns (values_of three_closes) ! (2 - 1) = 1 / 4
   \<and> index (dropna (pct_change three_closes)) ! (2 - 1) = 7
   \<and> length (dropna (pct_change three_closes)) + 1 = 3
   \<and> length one_close < 2
   \<and> dropna (pct_change one_close) = []"
proof -
  have p: "list_all (\<lambda>p. 0 < p) (values_of three_closes)" "2 < length three_closes"
    "length three_closes = 3" "length one_close = 1"
    by (simp_all add: three_closes_def one_close_def values_of_def)
  have e: "(values_of three_closes ! 2 - values_of three_closes ! Suc 0) / values_of three_closes ! Suc 0 = 1 / 4"
    "index three_closes ! 2 = 7"
    by (simp_all add: three_closes_def values_of_def index_def)
  show ?thesis
    using returns_between_consecutive_prices [of three_closes 2]
      returns_between_consecutive_prices [of one_close 1] p e
    by simp
qed

text \<open>
  C8, as the specification has it, fails for a series of one price: both return builders
  give a result, the empty array, and nothing fails.
\<close>

theorem returns_of_one_price:
  "values_of (dropna (pct_change [(0, 100)])) = [] \<and> diff_returns [100] = []"
  by (simp add: pct_change_def dropna_def values_of_def diff_returns_def np_diff_def)

subsection \<open>The directional split\<close>

lemma masked_map:
  assumes "length xs = length ys"
  shows "masked xs (map P ys) = map fst (filter (\<lambda>(a, b). P b) (zip xs ys))"
  using assms by (induction xs ys rule: list_induct2) (simp_all add: masked_def)

lemma masked_self:
  assumes "length xs = length ys"
  shows "masked ys (map P ys) = map snd (filter (\<lambda>(a, b). P b) (zip xs ys))"
  using assms by (induction xs ys rule: list_induct2) (simp_all add: masked_def)

lemma np_sum_map:
  assumes "length xs = length ys"
  shows "np_sum (map P ys) = length (filter (\<lambda>(a, b). P b) (zip xs ys))"
  using assms by (induction xs ys rule: list_induct2) (simp_all add: np_sum_def)

lemma sign_counts:
  "length (positive_subset obs) + length (negative_subset obs) + length (zero_return_set obs)
     = length obs"
  by (induction obs) (auto simp: positive_subset_def negative_subset_def zero_return_set_def)

lemma subsets_of_masks:
  assumes "length stock_ret = length market_ret"
  shows "masked stock_ret (positive_mask market_ret) = map fst (positive_subset (zip stock_ret market_ret))"
    and "masked market_ret (positive_mask market_ret) = map snd (positive_subset (zip stock_ret market_ret))"
    and "masked stock_ret (negative_mask market_ret) = map fst (negative_subset (zip stock_ret market_ret))"
    and "masked market_ret (negative_mask market_ret) = map snd (negative_subset (zip stock_ret market_ret))"
    and "np_sum (positive_mask market_ret) = length (positive_subset (zip stock_ret market_ret))"
    and "np_sum (negative_mask market_ret) = length (negative_subset (zip stock_ret market_ret))"
  unfolding positive_mask_def negative_mask_def positive_subset_def negative_subset_def
  by (rule masked_map [OF assms] masked_self [OF assms] np_sum_map [OF assms])+

lemma directional_beta_of_subset:
  "directional_beta N threshold stock_ret market_ret msk =
     (if threshold < np_sum msk \<and> 0 < variance N (masked market_ret msk)
      then Some (cov01 N (masked stock_ret msk) (masked market_ret msk)
                  / variance N (masked market_ret msk))
      else None)"
  by (simp add: directional_beta_def Let_def)

text \<open>
  C4. \<open>calculate_beta_simple\<close> and \<open>calculate_beta_fixed\<close> split the aligned observations
  by the sign of the benchmark return. An observation is in the positive subset exactly
  when its benchmark return is above zero, in the negative subset exactly when it is below
  zero, in neither exactly when it is zero, and never in both; the two subsets and the
  zero-return set are disjoint and make up the aligned set. The day counts an estimate
  reports are the sizes of the two subsets, and its directional betas are computed from the
  positive and from the negative subset of the specification. An estimate is returned
  whenever the variance of the benchmark is not zero.
\<close>

theorem directional_split_by_sign:
  assumes "length stock_ret = length market_ret"
  shows "(\<forall>i < length market_ret.
            (positive_mask market_ret ! i \<longleftrightarrow> 0 < market_ret ! i)
          \<and> (negative_mask market_ret ! i \<longleftrightarrow> market_ret ! i < 0)
          \<and> (\<not> positive_mask market_ret ! i \<and> \<not> negative_mask market_ret ! i \<longleftrightarrow> market_ret ! i = 0)
          \<and> \<not> (positive_mask market_ret ! i \<and> negative_mask market_ret ! i))
       \<and> set (positive_subset (zip stock_ret market_ret))
            \<inter> set (negative_subset (zip stock_ret market_ret)) = {}
       \<and> set (positive_subset (zip stock_ret market_ret))
            \<union> set (negative_subset (zip stock_ret market_ret))
            \<union> set (zero_return_set (zip stock_ret market_ret)) = set (zip stock_ret market_ret)
       \<and> (simple_estimate N stock_ret market_ret = Some r \<longrightarrow>
            positive_days r = length (positive_subset (zip stock_ret market_ret))
          \<and> negative_days r = length (negative_subset (zip stock_ret market_ret))
          \<and> positive_days r + negative_days r + length (zero_return_set (zip stock_ret market_ret))
              = data_points r
          \<and> positive_beta r =
              (if 10 < length (positive_subset (zip stock_ret market_ret))
                  \<and> 0 < variance N (map snd (positive_subset (zip stock_ret market_ret)))
               then Some (cov01 N (map fst (positive_subset (zip stock_ret market_ret)))
                                 (map snd (positive_subset (zip stock_ret market_ret)))
                           / variance N (map snd (positive_subset (zip stock_ret market_ret))))
               else None)
          \<and> negative_beta r =
              (if 10 < length (negative_subset (zip stock_ret market_ret))
                  \<and> 0 < variance N (map snd (negative_subset (zip stock_ret market_ret)))
               then Some (cov01 N (map fst (negative_subset (zip stock_ret market_ret)))
                                 (map snd (negative_subset (zip stock_ret market_ret)))
                           / variance N (map snd (negative_subset (zip stock_ret market_ret))))
               else None))
       \<and> (fixed_estimate N stock_ret market_ret = Some fr \<longrightarrow>
            fixed_positive_days fr = length (positive_subset (zip stock_ret market_ret))
          \<and> fixed_negative_days fr = length (negative_subset (zip stock_ret market_ret))
          \<and> fixed_positive_days fr + fixed_negative_days fr
              + length (zero_return_set (zip stock_ret market_ret)) = fixed_data_points fr
          \<and> fixed_positive_beta fr =
              (if 20 < length (positive_subset (zip stock_ret market_ret))
                  \<and> 0 < variance N (map snd (positive_subset (zip stock_ret market_ret)))
               then Some (cov01 N (map fst (positive_subset (zip stock_ret market_ret)))
                                 (map snd (positive_subset (zip stock_ret market_ret)))
                           / variance N (map snd (positive_subset (zip stock_ret market_ret))))
               else None)
          \<and> fixed_negative_beta fr =
              (if 20 < length (negative_subset (zip stock_ret market_ret))
                  \<and> 0 < variance N (map snd (negative_subset (zip stock_ret market_ret)))
               then Some (cov01 N (map fst (negative_subset (zip stock_ret market_ret)))
                                 (map snd (negative_subset (zip stock_ret market_ret)))
                           / variance N (map snd (negative_subset (zip stock_ret market_ret))))
               else None))
       \<and> (variance N market_ret \<noteq> 0 \<longrightarrow>
            simple_estimate N stock_ret market_ret \<noteq> None
          \<and> fixed_estimate N stock_ret market_ret \<noteq> None)"
proof (intro conjI impI)
  note sub = subsets_of_masks [OF assms]
  have total: "length (positive_subset (zip stock_ret market_ret))
      + length (negative_subset (zip stock_ret market_ret))
      + length (zero_return_set (zip stock_ret market_ret)) = length stock_ret"
    using sign_counts [of "zip stock_ret market_ret"] assms by simp
  show "\<forall>i < length market_ret.
            (positive_mask market_ret ! i \<longleftrightarrow> 0 < market_ret ! i)
          \<and> (negative_mask market_ret ! i \<longleftrightarrow> market_ret ! i < 0)
          \<and> (\<not> positive_mask market_ret ! i \<and> \<not> negative_mask market_ret ! i \<longleftrightarrow> market_ret ! i = 0)
          \<and> \<not> (positive_mask market_ret ! i \<and> negative_mask market_ret ! i)"
    by (auto simp: positive_mask_def negative_mask_def)
  show "set (positive_subset (zip stock_ret market_ret))
            \<inter> set (negative_subset (zip stock_ret market_ret)) = {}"
    by (auto simp: positive_subset_def negative_subset_def)
  show "set (positive_subset (zip stock_ret market_ret))
            \<union> set (negative_subset (zip stock_ret market_ret))
            \<union> set (zero_return_set (zip stock_ret market_ret)) = set (zip stock_ret market_ret)"
    by (auto simp: positive_subset_def negative_subset_def zero_return_set_def)
  {
    assume e: "simple_estimate N stock_ret market_ret = Some r"
    note f = simple_estimate_Some [OF e]
    show "positive_days r = length (positive_subset (zip stock_ret market_ret))"
      by (simp add: f(6) sub(5))
    show "negative_days r = length (negative_subset (zip stock_ret market_ret))"
      by (simp add: f(7) sub(6))
    show "positive_days r + negative_days r + length (zero_return_set (zip stock_ret market_ret))
              = data_points r"
      using total by (simp add: f(5,6,7) sub(5,6))
    show "positive_beta r =
              (if 10 < length (positive_subset (zip stock_ret market_ret))
                  \<and> 0 < variance N (map snd (positive_subset (zip stock_ret market_ret)))
               then Some (cov01 N (map fst (positive_subset (zip stock_ret market_ret)))
                                 (map snd (positive_subset (zip stock_ret market_ret)))
                           / variance N (map snd (positive_subset (zip stock_ret market_ret))))
               else None)"
      by (simp only: f(3) directional_beta_of_subset sub)
    show "negative_beta r =
              (if 10 < length (negative_subset (zip stock_ret market_ret))
                  \<and> 0 < variance N (map snd (negative_subset (zip stock_ret market_ret)))
               then Some (cov01 N (map fst (negative_subset (zip stock_ret market_ret)))
                                 (map snd (negative_subset (zip stock_ret market_ret)))
                           / variance N (map snd (negative_subset (zip stock_ret market_ret))))
               else None)"
      by (simp only: f(4) directional_beta_of_subset sub)
  }
  {
    assume e: "fixed_estimate N stock_ret market_ret = Some fr"
    note f = fixed_estimate_Some [OF e]
    show "fixed_positive_days fr = length (positive_subset (zip stock_ret market_ret))"
      by (simp add: f(6) sub(5))
    show "fixed_negative_days fr = length (negative_subset (zip stock_ret market_ret))"
      by (simp add: f(7) sub(6))
    show "fixed_positive_days fr + fixed_negative_days fr
              + length (zero_return_set (zip stock_ret market_ret)) = fixed_data_points fr"
      using total by (simp add: f(5,6,7) sub(5,6))
    show "fixed_positive_beta fr =
              (if 20 < length (positive_subset (zip stock_ret market_ret))
                  \<and> 0 < variance N (map snd (positive_subset (zip stock_ret market_ret)))
               then Some (cov01 N (map fst (positive_subset (zip stock_ret market_ret)))
                                 (map snd (positive_subset (zip stock_ret market_ret)))
                           / variance N (map snd (positive_subset (zip stock_ret market_ret))))
               else None)"
      by (simp only: f(3) directional_beta_of_subset sub)
    show "fixed_negative_beta fr =
              (if 20 < length (negative_subset (zip stock_ret market_ret))
                  \<and> 0 < variance N (map snd (negative_subset (zip stock_ret market_ret)))
               then Some (cov01 N (map fst (negative_subset (zip stock_ret market_ret)))
                                 (map snd (negative_subset (zip stock_ret market_ret)))
                           / variance N (map snd (negative_subset (zip stock_ret market_ret))))
               else None)"
      by (simp only: f(4) directional_beta_of_subset sub)
  }
  {
    assume "variance N market_ret \<noteq> 0"
    then show "simple_estimate N stock_ret market_ret \<noteq> None"
      and "fixed_estimate N stock_ret market_ret \<noteq> None"
      by (simp_all add: simple_estimate_def fixed_estimate_def Let_def)
  }
qed

theorem directional_split_by_sign_witness:
  "length wave_stock_ret = length calm_market_ret
   \<and> variance exact_numpy calm_market_ret \<noteq> 0
   \<and> simple_estimate exact_numpy wave_stock_ret calm_market_ret =
       Some \<lparr>beta = - (65000 / 113271), positive_beta = None, negative_beta = None,
               data_points = 52, positive_days = 2, negative_days = 2\<rparr>
   \<and> fixed_estimate exact_numpy wave_stock_ret calm_market_ret =
       Some \<lparr>traditional_beta = - (65000 / 113271), fixed_positive_beta = None, fixed_negative_beta = None,
          beta_ratio = None, fixed_data_points = 52, fixed_positive_days = 2,
          fixed_negative_days = 2\<rparr>
   \<and> length (positive_subset (zip wave_stock_ret calm_market_ret)) = 2
   \<and> length (negative_subset (zip wave_stock_ret calm_market_ret)) = 2
   \<and> length (zero_return_set (zip wave_stock_ret calm_market_ret)) = 48
   \<and> map fst (positive_subset (zip wave_stock_ret calm_market_ret)) = [0, 0]
   \<and> map snd (positive_subset (zip wave_stock_ret calm_market_ret)) = [1 / 4, 1 / 2]
   \<and> (4 :: nat) < length calm_market_ret
   \<and> \<not> positive_mask calm_market_ret ! 4 \<and> \<not> negative_mask calm_market_ret ! 4"
proof -
  have l: "length wave_stock_ret = length calm_market_ret" "(4 :: nat) < length calm_market_ret"
    "calm_market_ret ! 4 = 0"
    by (simp_all add: wave_stock_ret_def calm_market_ret_def)
  have v: "variance exact_numpy calm_market_ret \<noteq> 0"
    by (simp add: exact_numpy_def np_var_def cross_dev_def np_mean_def calm_market_ret_def)
  have s: "length (zero_return_set (zip wave_stock_ret calm_market_ret)) = 48"
    "map fst (positive_subset (zip wave_stock_ret calm_market_ret)) = [0, 0]"
    "map snd (positive_subset (zip wave_stock_ret calm_market_ret)) = [1 / 4, 1 / 2]"
    by (simp_all add: zero_return_set_def positive_subset_def wave_stock_ret_def calm_market_ret_def)
  show ?thesis
    using directional_split_by_sign [OF l(1), where N = exact_numpy
        and r = "\<lparr>beta = - (65000 / 113271), positive_beta = None, negative_beta = None,
               data_points = 52, positive_days = 2, negative_days = 2\<rparr>"
        and fr = "\<lparr>traditional_beta = - (65000 / 113271), fixed_positive_beta = None, fixed_negative_beta = None,
          beta_ratio = None, fixed_data_points = 52, fixed_positive_days = 2,
          fixed_negative_days = 2\<rparr>"]
      simple_estimate_wave_stock_calm_market fixed_estimate_wave_stock_calm_market l v s
    by simp
qed


lemma subsets_wave_market:
  "np_sum (positive_mask wave_market_ret) = 26"
  "np_var (masked wave_market_ret (positive_mask wave_market_ret)) = 1 / 64"
  "np_cov (masked wave_stock_ret (positive_mask wave_market_ret)) (masked wave_market_ret (positive_mask wave_market_ret)) = 0"
  "np_sum (negative_mask wave_market_ret) = 26"
  "np_var (masked wave_market_ret (negative_mask wave_market_ret)) = 1 / 225"
  "np_cov (masked wave_stock_ret (negative_mask wave_market_ret)) (masked wave_market_ret (negative_mask wave_market_ret)) = - (13 / 250)"
  by (simp_all add: np_cov_def np_var_def cross_dev_def np_mean_def masked_def positive_mask_def negative_mask_def
      np_sum_def
      wave_stock_ret_def wave_market_ret_def)

lemma subsets_flip_market:
  "np_sum (positive_mask flip_market_ret) = 26"
  "np_var (masked flip_market_ret (positive_mask flip_market_ret)) = 0"
  "np_cov (masked wave_stock_ret (positive_mask flip_market_ret)) (masked flip_market_ret (positive_mask flip_market_ret)) = 0"
  "np_sum (negative_mask flip_market_ret) = 26"
  "np_var (masked flip_market_ret (negative_mask flip_market_ret)) = 0"
  "np_cov (masked wave_stock_ret (negative_mask flip_market_ret)) (masked flip_market_ret (negative_mask flip_market_ret)) = 0"
  by (simp_all add: np_cov_def np_var_def cross_dev_def np_mean_def masked_def positive_mask_def negative_mask_def
      np_sum_def
      wave_stock_ret_def flip_market_ret_def)

lemma subsets_calm_market:
  "np_sum (positive_mask calm_market_ret) = 2"
  "np_var (masked calm_market_ret (positive_mask calm_market_ret)) = 1 / 64"
  "np_cov (masked wave_stock_ret (positive_mask calm_market_ret)) (masked calm_market_ret (positive_mask calm_market_ret)) = 0"
  "np_sum (negative_mask calm_market_ret) = 2"
  "np_var (masked calm_market_ret (negative_mask calm_market_ret)) = 1 / 225"
  "np_cov (masked wave_stock_ret (negative_mask calm_market_ret)) (masked calm_market_ret (negative_mask calm_market_ret)) = - (1 / 10)"
  by (simp_all add: np_cov_def np_var_def cross_dev_def np_mean_def masked_def positive_mask_def negative_mask_def
      np_sum_def
      wave_stock_ret_def calm_market_ret_def)

lemma sample_calculate_beta_simple:
  "calculate_beta_simple exact_numpy wave_stock wave_market =
     Some \<lparr>beta = - (65000 / 110619), positive_beta = Some 0, negative_beta = Some (- (117 / 10)),
            data_points = 52, positive_days = 26, negative_days = 26\<rparr>"
  "calculate_beta_simple exact_numpy wave_stock flip_market =
     Some \<lparr>beta = - (26 / 153), positive_beta = None, negative_beta = None,
            data_points = 52, positive_days = 26, negative_days = 26\<rparr>"
  "calculate_beta_simple exact_numpy wave_stock calm_market =
     Some \<lparr>beta = - (65000 / 113271), positive_beta = None, negative_beta = None,
            data_points = 52, positive_days = 2, negative_days = 2\<rparr>"
  by (simp_all add: calculate_beta_simple_def sample_simple_aligned
      simple_estimate_wave_stock_wave_market simple_estimate_wave_stock_flip_market
      simple_estimate_wave_stock_calm_market)

subsection \<open>Directional betas\<close>







lemma sample_variances:
  "variance exact_numpy (masked wave_market_ret (positive_mask wave_market_ret)) = 1 / 64"
  "variance exact_numpy (masked wave_market_ret (negative_mask wave_market_ret)) = 1 / 225"
  "variance exact_numpy (masked flip_market_ret (positive_mask flip_market_ret)) = 0"
  "variance exact_numpy (masked flip_market_ret (negative_mask flip_market_ret)) = 0"
  by (simp_all add: exact_numpy_def subsets_wave_market subsets_flip_market)

text \<open>
  C5, as the code has it. In \<open>calculate_beta_simple\<close> the beta of a directional subset of
  more than 10 observations, for whose benchmark returns \<open>np.var\<close> returns a variance
  above zero, is computed from exactly the observations of that subset, by the quotient of
  covariance and variance that the traditional beta is on the whole sample; a subset of 10
  observations or fewer gets \<open>None\<close>, which is not the number 0.
  \<open>calculate_positive_beta_original_method\<close> does the same with 20 in the place of 10.
\<close>

theorem directional_beta_by_threshold:
  assumes "price_series stock_data" and "price_series market_data"
    and "simple_aligned stock_data market_data = Some (sr, mr)"
    and "calculate_beta_simple N stock_data market_data = Some r"
    and "length stock_returns = length market_returns"
  shows "beta r = cov01 N sr mr / variance N mr
       \<and> (10 < length (positive_subset (zip sr mr))
            \<and> 0 < variance N (map snd (positive_subset (zip sr mr))) \<longrightarrow>
            positive_beta r = Some (cov01 N (map fst (positive_subset (zip sr mr)))
                                           (map snd (positive_subset (zip sr mr)))
                                     / variance N (map snd (positive_subset (zip sr mr)))))
       \<and> (10 < length (negative_subset (zip sr mr))
            \<and> 0 < variance N (map snd (negative_subset (zip sr mr))) \<longrightarrow>
            negative_beta r = Some (cov01 N (map fst (negative_subset (zip sr mr)))
                                           (map snd (negative_subset (zip sr mr)))
                                     / variance N (map snd (negative_subset (zip sr mr)))))
       \<and> (length (positive_subset (zip sr mr)) \<le> 10 \<longrightarrow>
            positive_beta r = None \<and> positive_beta r \<noteq> Some 0)
       \<and> (length (negative_subset (zip sr mr)) \<le> 10 \<longrightarrow>
            negative_beta r = None \<and> negative_beta r \<noteq> Some 0)
       \<and> (20 < length (positive_subset (zip stock_returns market_returns))
            \<and> 0 < variance N (map snd (positive_subset (zip stock_returns market_returns))) \<longrightarrow>
            fst (calculate_positive_beta_original_method N stock_returns market_returns)
              = Some (cov01 N (map fst (positive_subset (zip stock_returns market_returns)))
                              (map snd (positive_subset (zip stock_returns market_returns)))
                       / variance N (map snd (positive_subset (zip stock_returns market_returns)))))
       \<and> (length (positive_subset (zip stock_returns market_returns)) \<le> 20 \<longrightarrow>
            fst (calculate_positive_beta_original_method N stock_returns market_returns) = None)"
proof -
  from assms(3,4) have e: "simple_estimate N sr mr = Some r"
    by (simp add: calculate_beta_simple_def)
  have l: "length sr = length mr"
    using simple_aligned_lengths [OF assms(3)] by simp
  note p = simple_estimate_Some(3) [OF e] and n = simple_estimate_Some(4) [OF e]
  note s = subsets_of_masks [OF l] and t = subsets_of_masks [OF assms(5)]
  have "beta r = cov01 N sr mr / variance N mr"
    by (rule simple_estimate_Some(2) [OF e])
  moreover have "positive_beta r =
      (if 10 < length (positive_subset (zip sr mr))
          \<and> 0 < variance N (map snd (positive_subset (zip sr mr)))
       then Some (cov01 N (map fst (positive_subset (zip sr mr))) (map snd (positive_subset (zip sr mr)))
                   / variance N (map snd (positive_subset (zip sr mr))))
       else None)"
    by (simp only: p directional_beta_of_subset s)
  moreover have "negative_beta r =
      (if 10 < length (negative_subset (zip sr mr))
          \<and> 0 < variance N (map snd (negative_subset (zip sr mr)))
       then Some (cov01 N (map fst (negative_subset (zip sr mr))) (map snd (negative_subset (zip sr mr)))
                   / variance N (map snd (negative_subset (zip sr mr))))
       else None)"
    by (simp only: n directional_beta_of_subset s)
  moreover have "fst (calculate_positive_beta_original_method N stock_returns market_returns) =
      (if 20 < length (positive_subset (zip stock_returns market_returns))
          \<and> 0 < variance N (map snd (positive_subset (zip stock_returns market_returns)))
       then Some (cov01 N (map fst (positive_subset (zip stock_returns market_returns)))
                          (map snd (positive_subset (zip stock_returns market_returns)))
                   / variance N (map snd (positive_subset (zip stock_returns market_returns))))
       else None)"
    by (simp only: calculate_positive_beta_original_method_def Let_def fst_conv
        directional_beta_of_subset t)
  ultimately show ?thesis by simp
qed

theorem directional_beta_by_threshold_witness:
  "price_series wave_stock \<and> price_series wave_market \<and> price_series calm_market
   \<and> simple_aligned wave_stock wave_market = Some (wave_stock_ret, wave_market_ret)
   \<and> simple_aligned wave_stock calm_market = Some (wave_stock_ret, calm_market_ret)
   \<and> calculate_beta_simple exact_numpy wave_stock wave_market =
       Some \<lparr>beta = - (65000 / 110619), positive_beta = Some 0, negative_beta = Some (- (117 / 10)),
               data_points = 52, positive_days = 26, negative_days = 26\<rparr>
   \<and> calculate_beta_simple exact_numpy wave_stock calm_market =
       Some \<lparr>beta = - (65000 / 113271), positive_beta = None, negative_beta = None,
               data_points = 52, positive_days = 2, negative_days = 2\<rparr>
   \<and> length wave_stock_ret = length wave_market_ret
   \<and> length scenario_asset = length scenario_benchmark
   \<and> length (positive_subset (zip wave_stock_ret wave_market_ret)) = 26
   \<and> variance exact_numpy (map snd (positive_subset (zip wave_stock_ret wave_market_ret))) = 1 / 64
   \<and> length (negative_subset (zip wave_stock_ret wave_market_ret)) = 26
   \<and> variance exact_numpy (map snd (negative_subset (zip wave_stock_ret wave_market_ret))) = 1 / 225
   \<and> length (positive_subset (zip wave_stock_ret calm_market_ret)) = 2
   \<and> length (negative_subset (zip wave_stock_ret calm_market_ret)) = 2
   \<and> length (positive_subset (zip scenario_asset scenario_benchmark)) = 3
   \<and> fst (calculate_positive_beta_original_method exact_numpy wave_stock_ret wave_market_ret) = Some 0
   \<and> fst (calculate_positive_beta_original_method exact_numpy scenario_asset scenario_benchmark) = None"
proof -
  have l: "length wave_stock_ret = length wave_market_ret"
    "length scenario_asset = length scenario_benchmark"
    "length wave_stock_ret = length calm_market_ret"
    by (simp_all add: wave_stock_ret_def wave_market_ret_def calm_market_ret_def scenario_asset_def
        scenario_benchmark_def)
  have n: "length (positive_subset (zip scenario_asset scenario_benchmark)) = 3"
    by (simp add: positive_subset_def scenario_asset_def scenario_benchmark_def)
  note sw = subsets_of_masks [OF l(1), symmetric] and sc = subsets_of_masks [OF l(3), symmetric]
  have c: "cov01 exact_numpy (masked wave_stock_ret (positive_mask wave_market_ret))
             (masked wave_market_ret (positive_mask wave_market_ret)) = 0"
    by (simp add: exact_numpy_def subsets_wave_market)
  note w = directional_beta_by_threshold
    [OF sample_price_series(2) sample_price_series(1) sample_simple_aligned(1)
        sample_calculate_beta_simple(1) l(1)]
  note k = directional_beta_by_threshold
    [OF sample_price_series(2) sample_price_series(5) sample_simple_aligned(5)
        sample_calculate_beta_simple(3) l(2)]
  show ?thesis
    using w k l n c sample_price_series sample_simple_aligned sample_calculate_beta_simple
      subsets_wave_market subsets_calm_market sample_variances
    by (simp add: sw sc)
qed

text \<open>
  C5, as the specification has it, fails where a subset above the threshold has benchmark
  returns that are all equal and \<open>np.var\<close> returns zero for them: 25 positive days of 1/64
  each, more than the 20 asked for, and the positive beta is \<open>None\<close>.
\<close>

theorem directional_beta_absent_above_threshold:
  "calculate_positive_beta_original_method exact_numpy steady_returns steady_returns = (None, 25)"
  by (simp add: calculate_positive_beta_original_method_def directional_beta_def exact_numpy_def
      np_cov_def np_var_def cross_dev_def np_mean_def masked_def positive_mask_def np_sum_def
      steady_returns_def)




subsection \<open>Alignment\<close>

lemma loc_nth:
  assumes "loc s ds = Some rows" and "i < length ds"
  shows "map_of s (ds ! i) = Some (values_of rows ! i)"
  using assms
proof (induction ds arbitrary: rows i)
  case Nil
  then show ?case by simp
next
  case (Cons d ds)
  then show ?case
    by (cases i) (auto simp: values_of_def split: option.splits)
qed

lemma loc_intersection_left: "\<exists>rows. loc s (intersection (index s) other) = Some rows"
  using loc_defined [of "intersection (index s) other" s] by (auto simp: intersection_def)

lemma loc_intersection_right: "\<exists>rows. loc s (intersection other (index s)) = Some rows"
  using loc_defined [of "intersection other (index s)" s] by (auto simp: intersection_def)

lemma sorted_intersection:
  "sorted_wrt (<) a \<Longrightarrow> sorted_wrt (<) (intersection a b)"
  by (simp add: intersection_def sorted_wrt_filter)

lemma simple_aligned_None:
  "simple_aligned stock_data market_data = None
     \<longleftrightarrow> length (intersection (index stock_data) (index market_data)) < 50"
proof -
  obtain srows mrows
    where "loc stock_data (intersection (index stock_data) (index market_data)) = Some srows"
      and "loc market_data (intersection (index stock_data) (index market_data)) = Some mrows"
    using loc_intersection_left [of stock_data "index market_data"]
      loc_intersection_right [of market_data "index stock_data"] by blast
  then show ?thesis
    by (simp add: simple_aligned_def Let_def)
qed

text \<open>
  \<open>calculate_beta_fixed\<close> joins the two return series on their dates: the aligned arrays have
  one entry for every date of both series, in the order of the dates, and the entries at one
  position are the returns the two series have on that date.
\<close>

lemma fixed_aligned_by_date:
  assumes "fixed_aligned stock_close market_close = Some (sa, ma)"
  defines "common \<equiv> intersection (index (dropna (pct_change stock_close)))
                                  (index (dropna (pct_change market_close)))"
  shows "length sa = length common" and "length ma = length common"
    and "set common = set (index (dropna (pct_change stock_close)))
                      \<inter> set (index (dropna (pct_change market_close)))"
    and "\<forall>i < length common.
           map_of (dropna (pct_change stock_close)) (common ! i) = Some (sa ! i)
         \<and> map_of (dropna (pct_change market_close)) (common ! i) = Some (ma ! i)"
proof -
  from assms(1) obtain srows mrows
    where s: "loc (dropna (pct_change stock_close)) common = Some srows"
      and m: "loc (dropna (pct_change market_close)) common = Some mrows"
      and sa: "sa = values_of srows" and ma: "ma = values_of mrows"
    by (auto simp: fixed_aligned_def common_def Let_def split: if_splits option.splits)
  have "index srows = common" "index mrows = common"
    using loc_index [OF s] loc_index [OF m] by simp_all
  then have "length srows = length common" "length mrows = length common"
    by (metis length_index)+
  then show "length sa = length common" "length ma = length common"
    by (simp_all add: sa ma values_of_def)
  show "set common = set (index (dropna (pct_change stock_close)))
                      \<inter> set (index (dropna (pct_change market_close)))"
    by (auto simp: common_def intersection_def)
  show "\<forall>i < length common.
           map_of (dropna (pct_change stock_close)) (common ! i) = Some (sa ! i)
         \<and> map_of (dropna (pct_change market_close)) (common ! i) = Some (ma ! i)"
    using loc_nth [OF s] loc_nth [OF m] by (simp add: sa ma)
qed

lemma gap_index:
  "index gap_nvda = [0..<10] @ [11..<53]" "index gap_spy = [0..<20] @ [21..<53]"
  "length gap_nvda = 52" "length gap_spy = 52"
  by (simp_all add: gap_nvda_def gap_spy_def index_def wave_stock_prices_def wave_market_prices_def)

text \<open>
  C2. \<open>analyze_nvidia_beta_periods\<close> pairs the two return arrays by position. With day 10
  missing from the first series and day 20 from the second, it keeps 51 pairs where 50
  dates are common to the two return series, and the pair at position 9 holds the return of
  day 11 of the first series and the return of day 10 of the second.
\<close>

theorem period_sample_pairs_by_position:
  "period_sample gap_nvda gap_spy
     = Some (values_of (dropna (pct_change gap_nvda)), values_of (dropna (pct_change gap_spy)))
   \<and> length (values_of (dropna (pct_change gap_nvda))) = 51
   \<and> length (intersection (index (dropna (pct_change gap_nvda)))
                           (index (dropna (pct_change gap_spy)))) = 50
   \<and> index (dropna (pct_change gap_nvda)) ! 9 = 11
   \<and> index (dropna (pct_change gap_spy)) ! 9 = 10"
proof -
  have l: "length (dropna (pct_change gap_nvda)) = 51" "length (dropna (pct_change gap_spy)) = 51"
    by (simp_all add: length_returns gap_index)
  then have "period_sample gap_nvda gap_spy
     = Some (values_of (dropna (pct_change gap_nvda)), values_of (dropna (pct_change gap_spy)))"
    by (simp add: period_sample_def gap_index values_of_def)
  moreover have "length (intersection (index (dropna (pct_change gap_nvda)))
                           (index (dropna (pct_change gap_spy)))) = 50"
    by (simp add: index_returns gap_index intersection_def)
  moreover have "index (dropna (pct_change gap_nvda)) ! 9 = 11"
    "index (dropna (pct_change gap_spy)) ! 9 = 10"
    by (simp_all add: index_returns gap_index nth_append)
  ultimately show ?thesis
    using l by (simp add: values_of_def)
qed

subsection \<open>Failures\<close>

lemma dropna_Some: "dropna (zip ds (map Some ps)) = zip ds ps"
proof (induction ds arbitrary: ps)
  case Nil
  then show ?case by (simp add: dropna_def)
next
  case (Cons d ds)
  then show ?case by (cases ps) (simp_all add: dropna_def)
qed

lemma getBars_samples:
  "getBars (Download_raises e) = ([Error_fetching_data e], None)"
  "getBars (Downloaded short_frame) = ([Successfully_fetched 3], Some [(0, 8), (1, 8), (2, 4)])"
  "getBars (Downloaded wave_frame) = ([Successfully_fetched 53], Some wave_stock)"
proof -
  show "getBars (Download_raises e) = ([Error_fetching_data e], None)"
    by (simp add: getBars_def)
  show "getBars (Downloaded short_frame) = ([Successfully_fetched 3], Some [(0, 8), (1, 8), (2, 4)])"
    by (simp add: getBars_def short_frame_def dropna_def)
  have "zip [0..<53] wave_stock_prices \<noteq> []" "length (zip [0..<53] wave_stock_prices) = 53"
    by (simp_all add: wave_stock_prices_def upt_rec)
  then show "getBars (Downloaded wave_frame) = ([Successfully_fetched 53], Some wave_stock)"
    by (simp add: getBars_def wave_frame_def dropna_Some wave_stock_def Let_def)
qed

lemma getBars_lines:
  "fst (getBars (Downloaded df)) \<in>
     {[No_data_found], [No_close_price_column], [All_close_prices_are_NaN]}
   \<or> (\<exists>rows. getBars (Downloaded df) = ([Successfully_fetched (length rows)], Some rows)
         \<and> rows \<noteq> [])"
  by (auto simp: getBars_def Let_def split: option.splits)

lemma getBars_no_error_line:
  assumes "getBars (Downloaded df) = (fetched, v)"
  shows "Error_fetching_data e \<notin> set fetched"
  using getBars_lines [of df] assms by auto

lemma process_symbol_no_error_line:
  "Error_fetching_data e \<notin> set (process_symbol N symbol (Downloaded df) market_data)"
proof -
  obtain fetched v where g: "getBars (Downloaded df) = (fetched, v)"
    by (cases "getBars (Downloaded df)")
  note n = getBars_no_error_line [OF g, of e]
  show ?thesis
    using n by (cases v) (auto simp: process_symbol_def g split: option.splits)
qed

lemma length_intersection_le:
  assumes "distinct a"
  shows "length (intersection a b) \<le> length b"
proof -
  have "distinct (intersection a b)"
    using assms by (simp add: intersection_def)
  then have "length (intersection a b) = card (set (intersection a b))"
    by (simp add: distinct_card)
  also have "\<dots> \<le> card (set b)"
    by (rule card_mono) (auto simp: intersection_def)
  also have "\<dots> \<le> length b"
    by (rule card_length)
  finally show ?thesis .
qed

lemma calculate_beta_simple_flat: "calculate_beta_simple exact_numpy wave_stock flat_market = None"
  by (simp add: calculate_beta_simple_def sample_simple_aligned simple_estimate_def np_var_flat
      exact_numpy_def)

text \<open>
  C9, as the code has it. A failure of the data source and a history that is too short
  are told apart by the line \<open>getBars\<close> prints: the line for an error of the download is
  printed when the download raises and in no other turn of the loop, so the lines printed
  for the two causes are never the same. The value returned is \<open>None\<close> for both causes,
  and the line \<open>main\<close> adds is the same for a download that raised and for a history of
  fewer than 50 rows.
\<close>

theorem failure_lines:
  "process_symbol N symbol (Download_raises e) market_data
     = [Processing symbol, Error_fetching_data e, Insufficient_5year_data]
   \<and> Error_fetching_data e' \<notin> set (process_symbol N symbol (Downloaded df) market_data)
   \<and> process_symbol N symbol (Download_raises e) market_data
       \<noteq> process_symbol N symbol (Downloaded df) market_data
   \<and> snd (getBars (Download_raises e)) = None
   \<and> (length (intersection (index stock_data) (index market_data)) < 50
        \<longrightarrow> calculate_beta_simple N stock_data market_data = None)
   \<and> (snd (getBars (Downloaded df)) = Some rows \<and> length rows < 50
        \<longrightarrow> process_symbol N symbol (Downloaded df) market_data
              = [Processing symbol, Successfully_fetched (length rows), Insufficient_5year_data])
   \<and> (snd (getBars (Downloaded df)) = Some rows \<and> 50 \<le> length rows
        \<and> length (intersection (index rows) (index market_data)) < 50
        \<longrightarrow> process_symbol N symbol (Downloaded df) market_data
              = [Processing symbol, Successfully_fetched (length rows), Beta_calculation_failed])"
proof (intro conjI impI)
  show raised: "process_symbol N symbol (Download_raises e) market_data
     = [Processing symbol, Error_fetching_data e, Insufficient_5year_data]"
    by (simp add: process_symbol_def getBars_def)
  show "Error_fetching_data e' \<notin> set (process_symbol N symbol (Downloaded df) market_data)"
    by (rule process_symbol_no_error_line)
  have "Error_fetching_data e \<in> set (process_symbol N symbol (Download_raises e) market_data)"
    by (simp add: raised)
  then show "process_symbol N symbol (Download_raises e) market_data
       \<noteq> process_symbol N symbol (Downloaded df) market_data"
    using process_symbol_no_error_line [of e N symbol df market_data] by metis
  show "snd (getBars (Download_raises e)) = None"
    by (simp add: getBars_def)
  {
    assume "length (intersection (index stock_data) (index market_data)) < 50"
    then show "calculate_beta_simple N stock_data market_data = None"
      by (simp add: calculate_beta_simple_def simple_aligned_def)
  }
  {
    assume a: "snd (getBars (Downloaded df)) = Some rows \<and> length rows < 50"
    then have "getBars (Downloaded df) = ([Successfully_fetched (length rows)], Some rows)"
      using getBars_lines [of df] by (auto simp: getBars_def Let_def split: option.splits if_splits)
    with a show "process_symbol N symbol (Downloaded df) market_data
              = [Processing symbol, Successfully_fetched (length rows), Insufficient_5year_data]"
      by (simp add: process_symbol_def)
  }
  {
    assume a: "snd (getBars (Downloaded df)) = Some rows \<and> 50 \<le> length rows
        \<and> length (intersection (index rows) (index market_data)) < 50"
    then have "getBars (Downloaded df) = ([Successfully_fetched (length rows)], Some rows)"
      using getBars_lines [of df] by (auto simp: getBars_def Let_def split: option.splits if_splits)
    moreover from a have "calculate_beta_simple N rows market_data = None"
      by (simp add: calculate_beta_simple_def simple_aligned_def)
    ultimately show "process_symbol N symbol (Downloaded df) market_data
              = [Processing symbol, Successfully_fetched (length rows), Beta_calculation_failed]"
      using a by (simp add: process_symbol_def)
  }
qed

theorem failure_lines_witness:
  "length (intersection (index three_closes) (index wave_market)) < 50
   \<and> calculate_beta_simple exact_numpy three_closes wave_market = None
   \<and> snd (getBars (Downloaded short_frame)) = Some [(0, 8), (1, 8), (2, 4)]
   \<and> length [(0 :: nat, 8 :: real), (1, 8), (2, 4)] < 50
   \<and> process_symbol exact_numpy ''NVDA'' (Downloaded short_frame) wave_market
       = [Processing ''NVDA'', Successfully_fetched 3, Insufficient_5year_data]
   \<and> process_symbol exact_numpy ''NVDA'' (Download_raises ''timed out'') wave_market
       = [Processing ''NVDA'', Error_fetching_data ''timed out'', Insufficient_5year_data]
   \<and> snd (getBars (Downloaded wave_frame)) = Some wave_stock \<and> 50 \<le> length wave_stock
   \<and> length (intersection (index wave_stock) (index (drop 10 wave_market))) < 50
   \<and> process_symbol exact_numpy ''NVDA'' (Downloaded wave_frame) (drop 10 wave_market)
       = [Processing ''NVDA'', Successfully_fetched 53, Beta_calculation_failed]"
proof -
  have "length (intersection (index three_closes) (index wave_market)) \<le> length three_closes"
    by (simp add: intersection_def index_def)
  then have l: "length (intersection (index three_closes) (index wave_market)) < 50"
    by (simp add: three_closes_def)
  have "length (intersection (index wave_stock) (index (drop 10 wave_market)))
          \<le> length (index (drop 10 wave_market))"
    by (rule length_intersection_le) (rule sample_distinct)
  then have m: "length (intersection (index wave_stock) (index (drop 10 wave_market))) < 50"
    by (simp add: length_index sample_length)
  show ?thesis
    using failure_lines [of exact_numpy "''NVDA''" "''timed out''" wave_market _ short_frame
          three_closes "[(0, 8), (1, 8), (2, 4)]"]
      failure_lines [of exact_numpy "''NVDA''" "''timed out''" "drop 10 wave_market" _ wave_frame
          three_closes wave_stock]
      l m getBars_samples sample_length
    by simp
qed

text \<open>
  C9, as the specification has it, fails: the two causes give one and the same failure
  value. \<open>getBars\<close> returns \<open>None\<close> for a download that raised, \<open>calculate_beta_simple\<close>
  returns \<open>None\<close> for a history of three closes, and the last line of the turn is the same
  for a download that raised and for a download of three rows.
\<close>

theorem failure_value_and_line_shared:
  "snd (getBars (Download_raises ''timed out'')) = None
   \<and> calculate_beta_simple exact_numpy three_closes wave_market = None
   \<and> last (process_symbol exact_numpy ''NVDA'' (Download_raises ''timed out'') wave_market)
       = Insufficient_5year_data
   \<and> last (process_symbol exact_numpy ''NVDA'' (Downloaded short_frame) wave_market)
       = Insufficient_5year_data"
  by (simp add: process_symbol_def getBars_samples sample_insufficient)


end
